theory Spec2Isabelle
  imports Complex_Main
begin

section \<open>The game engine of \<open>src/core/game_engine.py\<close>\<close>

text \<open>
  The engine is a Python object whose methods mutate it in place; here every method is
  a function from the engine to the engine it leaves behind. Python's \<open>float\<close> is
  idealised as \<^typ>\<open>real\<close> (no rounding, no overflow), Python's unbounded \<open>int\<close> is
  \<^typ>\<open>int\<close>. The calls to \<open>random\<close> and \<open>time.time\<close> are arguments of the
  functions that make them.

  The dataclasses are read as the records they declare, and the constants that
  \<open>__init__\<close> assigns to the instance are constants of the theory, in place from the
  start. (In the source \<open>Obstacle\<close> adds fields without defaults to a base class whose
  last field has one, and \<open>__init__\<close> assigns the constants only after \<open>reset_game\<close>
  has read two of them; the methods are modelled as they are written, on an engine that
  exists.)
\<close>

subsection \<open>Data model\<close>

datatype py_error = IndexError

text \<open>The fields \<open>x\<close> and \<open>y\<close> of \<open>Position\<close> are named \<open>pos_x\<close> and \<open>pos_y\<close>.\<close>

record Position =
  pos_x :: real
  pos_y :: real

record GameObject =
  position :: Position
  width :: real
  height :: real
  active :: bool

record Player = GameObject +
  lane :: int
  jumping :: bool
  sliding :: bool
  jump_height :: real

text \<open>The field \<open>lane\<close> of \<open>Obstacle\<close> is named \<open>obstacle_lane\<close>.\<close>

record Obstacle = GameObject +
  obstacle_type :: string
  obstacle_lane :: int

record Coin = GameObject +
  collected :: bool

record GameState =
  score :: int
  distance :: int
  coins_collected :: int
  lives :: int
  speed_multiplier :: real
  game_over :: bool
  paused :: bool
  high_score :: int

record GameEngine =
  state :: GameState
  player :: Player
  obstacles :: "Obstacle list"
  coins :: "Coin list"
  last_update :: real
  slide_timer :: real
  jump_timer :: real

subsection \<open>Constants\<close>

definition LANE_POSITIONS :: "int list" where
  "LANE_POSITIONS = [150, 300, 450]"

definition PLAYER_HEIGHT :: int where "PLAYER_HEIGHT = 60"
definition PLAYER_WIDTH :: int where "PLAYER_WIDTH = 40"
definition OBSTACLE_HEIGHT :: int where "OBSTACLE_HEIGHT = 60"
definition OBSTACLE_WIDTH :: int where "OBSTACLE_WIDTH = 50"
definition COIN_SIZE :: int where "COIN_SIZE = 20"
definition JUMP_HEIGHT :: int where "JUMP_HEIGHT = 80"
definition SLIDE_DURATION :: real where "SLIDE_DURATION = 1.0"
definition OBSTACLE_SPAWN_RATE :: real where "OBSTACLE_SPAWN_RATE = 0.02"
definition COIN_SPAWN_RATE :: real where "COIN_SPAWN_RATE = 0.03"

subsection \<open>Python primitives\<close>

text \<open>\<open>int(v)\<close> of a float truncates towards zero.\<close>

definition py_int :: "real \<Rightarrow> int" where
  "py_int v = (if 0 \<le> v then \<lfloor>v\<rfloor> else \<lceil>v\<rceil>)"

text \<open>\<open>v // 2\<close> on a float (or an int stored in a float field) is the floor of the quotient.\<close>

definition floordiv2 :: "real \<Rightarrow> real" where
  "floordiv2 v = of_int \<lfloor>v / 2\<rfloor>"

text \<open>
  \<open>LANE_POSITIONS[i]\<close>: an index from \<open>-3\<close> to \<open>-1\<close> counts from the end, any index
  outside \<open>-3 .. 2\<close> raises \<open>IndexError\<close>.
\<close>

definition lane_position :: "int \<Rightarrow> py_error + real" where
  "lane_position i =
     (if 0 \<le> i \<and> i < int (length LANE_POSITIONS)
        then Inr (of_int (LANE_POSITIONS ! nat i))
      else if - int (length LANE_POSITIONS) \<le> i \<and> i < 0
        then Inr (of_int (LANE_POSITIONS ! nat (int (length LANE_POSITIONS) + i)))
      else Inl IndexError)"

text \<open>
  The draws of one tick: \<open>random.random()\<close> for the obstacle, then the raw values behind
  \<open>random.randint(0, 2)\<close> and \<open>random.choice\<close> (reduced to the three possible results),
  then \<open>random.random()\<close> and \<open>random.randint(0, 2)\<close> for the coin.
\<close>

record Draws =
  obstacle_roll :: real
  obstacle_lane_draw :: nat
  obstacle_type_draw :: nat
  coin_roll :: real
  coin_lane_draw :: nat

definition randint_0_2 :: "nat \<Rightarrow> nat" where
  "randint_0_2 r = r mod 3"

definition choice_type :: "nat \<Rightarrow> string" where
  "choice_type r = [''tree'', ''rock'', ''pit''] ! (r mod 3)"

subsection \<open>Construction and reset\<close>

definition GameState_default :: GameState where
  "GameState_default =
     \<lparr>score = 0, distance = 0, coins_collected = 0, lives = 3, speed_multiplier = 1.0,
      game_over = False, paused = False, high_score = 0\<rparr>"

text \<open>
  \<open>reset_game\<close> assigns every attribute of the engine other than the constants, so the
  engine it leaves does not depend on the one it found and the model takes no \<open>self\<close>;
  \<open>now\<close> is \<open>time.time()\<close>.
\<close>

definition reset_game :: "real \<Rightarrow> GameEngine" where
  "reset_game now =
     \<lparr>state = GameState_default,
      player = \<lparr>position = \<lparr>pos_x = 300, pos_y = 400\<rparr>,
                width = of_int PLAYER_WIDTH, height = of_int PLAYER_HEIGHT, active = True,
                lane = 1, jumping = False, sliding = False, jump_height = 0\<rparr>,
      obstacles = [], coins = [], last_update = now, slide_timer = 0, jump_timer = 0\<rparr>"

text \<open>
  What \<open>load_high_score\<close> finds: no file, a file whose JSON object has or lacks the key
  \<open>high_score\<close>, or a file that cannot be read or parsed.
\<close>

datatype score_file = NoFile | FileData "int option" | Unreadable

definition load_high_score :: "score_file \<Rightarrow> GameEngine \<Rightarrow> GameEngine" where
  "load_high_score f self =
     (case f of
        NoFile \<Rightarrow> self
      | FileData None \<Rightarrow> self\<lparr>state := (state self)\<lparr>high_score := 0\<rparr>\<rparr>
      | FileData (Some h) \<Rightarrow> self\<lparr>state := (state self)\<lparr>high_score := h\<rparr>\<rparr>
      | Unreadable \<Rightarrow> self\<lparr>state := (state self)\<lparr>high_score := 0\<rparr>\<rparr>)"

text \<open>
  \<open>save_high_score\<close>: the write to the file is outside the engine and its failure is
  swallowed; the assignment to \<open>high_score\<close> comes before it.
\<close>

definition save_high_score :: "GameEngine \<Rightarrow> GameEngine" where
  "save_high_score self =
     (if score (state self) > high_score (state self)
        then self\<lparr>state := (state self)\<lparr>high_score := score (state self)\<rparr>\<rparr>
      else self)"

subsection \<open>Input\<close>

definition move_player :: "string \<Rightarrow> GameEngine \<Rightarrow> py_error + GameEngine" where
  "move_player direction self =
     (if game_over (state self) \<or> paused (state self) then Inr self
      else if direction = ''left'' \<and> lane (player self) > 0 then
        (case lane_position (lane (player self) - 1) of
           Inl err \<Rightarrow> Inl err
         | Inr px \<Rightarrow>
             Inr (self\<lparr>player := (player self)
                    \<lparr>lane := lane (player self) - 1,
                     position := (position (player self))\<lparr>pos_x := px\<rparr>\<rparr>\<rparr>))
      else if direction = ''right'' \<and> lane (player self) < 2 then
        (case lane_position (lane (player self) + 1) of
           Inl err \<Rightarrow> Inl err
         | Inr px \<Rightarrow>
             Inr (self\<lparr>player := (player self)
                    \<lparr>lane := lane (player self) + 1,
                     position := (position (player self))\<lparr>pos_x := px\<rparr>\<rparr>\<rparr>))
      else if direction = ''up'' \<and> \<not> jumping (player self) then
        Inr (self\<lparr>player := (player self)\<lparr>jumping := True\<rparr>, jump_timer := 0\<rparr>)
      else if direction = ''down'' \<and> \<not> sliding (player self) then
        Inr (self\<lparr>player := (player self)\<lparr>sliding := True\<rparr>, slide_timer := 0\<rparr>)
      else Inr self)"

definition pause_game :: "GameEngine \<Rightarrow> GameEngine" where
  "pause_game self = self\<lparr>state := (state self)\<lparr>paused := \<not> paused (state self)\<rparr>\<rparr>"

subsection \<open>The steps of a tick\<close>

definition update_player_actions :: "real \<Rightarrow> GameEngine \<Rightarrow> GameEngine" where
  "update_player_actions delta_time self =
     (let s1 =
        (if jumping (player self) then
           (let t = jump_timer self + delta_time in
            if t < 0.5 then
              self\<lparr>jump_timer := t,
                   player := (player self)\<lparr>jump_height := of_int JUMP_HEIGHT * (t / 0.5)\<rparr>\<rparr>
            else if t < 1.0 then
              self\<lparr>jump_timer := t,
                   player := (player self)
                     \<lparr>jump_height := of_int JUMP_HEIGHT * (1 - (t - 0.5) / 0.5)\<rparr>\<rparr>
            else
              self\<lparr>jump_timer := 0,
                   player := (player self)\<lparr>jumping := False, jump_height := 0\<rparr>\<rparr>)
         else self)
      in
        if sliding (player s1) then
          (let t = slide_timer s1 + delta_time in
           if t \<ge> SLIDE_DURATION then
             s1\<lparr>slide_timer := 0, player := (player s1)\<lparr>sliding := False\<rparr>\<rparr>
           else s1\<lparr>slide_timer := t\<rparr>)
        else s1)"

definition spawn_obstacles :: "Draws \<Rightarrow> GameEngine \<Rightarrow> GameEngine" where
  "spawn_obstacles d self =
     (if obstacle_roll d < OBSTACLE_SPAWN_RATE * speed_multiplier (state self) then
        (let ln = randint_0_2 (obstacle_lane_draw d);
             obstacle =
               \<lparr>position = \<lparr>pos_x = of_int (LANE_POSITIONS ! ln), pos_y = - 50\<rparr>,
                width = of_int OBSTACLE_WIDTH, height = of_int OBSTACLE_HEIGHT,
                active = True,
                obstacle_type = choice_type (obstacle_type_draw d),
                obstacle_lane = int ln\<rparr>
         in self\<lparr>obstacles := obstacles self @ [obstacle]\<rparr>)
      else self)"

definition spawn_coins :: "Draws \<Rightarrow> GameEngine \<Rightarrow> GameEngine" where
  "spawn_coins d self =
     (if coin_roll d < COIN_SPAWN_RATE then
        (let ln = randint_0_2 (coin_lane_draw d);
             coin =
               \<lparr>position = \<lparr>pos_x = of_int (LANE_POSITIONS ! ln), pos_y = - 30\<rparr>,
                width = of_int COIN_SIZE, height = of_int COIN_SIZE,
                active = True, collected = False\<rparr>
         in self\<lparr>coins := coins self @ [coin]\<rparr>)
      else self)"

text \<open>The body of the loops of \<open>_update_obstacles\<close> and \<open>_update_coins\<close>.\<close>

definition advance :: "real \<Rightarrow> ('a GameObject_scheme) \<Rightarrow> ('a GameObject_scheme)" where
  "advance dy ob = ob\<lparr>position := (position ob)\<lparr>pos_y := pos_y (position ob) + dy\<rparr>\<rparr>"

definition update_obstacles :: "real \<Rightarrow> GameEngine \<Rightarrow> GameEngine" where
  "update_obstacles delta_time self =
     (let speed = 300 * speed_multiplier (state self)
      in self\<lparr>obstacles := map (advance (speed * delta_time)) (obstacles self)\<rparr>)"

definition update_coins :: "real \<Rightarrow> GameEngine \<Rightarrow> GameEngine" where
  "update_coins delta_time self =
     (let speed = 300 * speed_multiplier (state self)
      in self\<lparr>coins := map (advance (speed * delta_time)) (coins self)\<rparr>)"

type_synonym rect = "real \<times> real \<times> real \<times> real"

definition get_player_rect :: "GameEngine \<Rightarrow> rect" where
  "get_player_rect self =
     (let y_offset = (if jumping (player self) then jump_height (player self) else 0);
          h = (if sliding (player self) then of_int (PLAYER_HEIGHT div 2)
               else of_int PLAYER_HEIGHT)
      in (pos_x (position (player self)) - of_int (PLAYER_WIDTH div 2),
          pos_y (position (player self)) - h - y_offset,
          of_int PLAYER_WIDTH,
          h))"

text \<open>The rectangle that \<open>_check_collisions\<close> builds for an obstacle or a coin.\<close>

definition object_rect :: "('a GameObject_scheme) \<Rightarrow> rect" where
  "object_rect ob =
     (pos_x (position ob) - floordiv2 (width ob),
      pos_y (position ob) - floordiv2 (height ob),
      width ob,
      height ob)"

fun rects_collide :: "rect \<Rightarrow> rect \<Rightarrow> bool" where
  "rects_collide (x1, y1, w1, h1) (x2, y2, w2, h2) =
     (x1 < x2 + w2 \<and> x1 + w1 > x2 \<and> y1 < y2 + h2 \<and> y1 + h1 > y2)"

definition handle_collision :: "GameEngine \<Rightarrow> GameEngine" where
  "handle_collision self =
     (let s1 = self\<lparr>state := (state self)\<lparr>lives := lives (state self) - 1\<rparr>\<rparr>
      in if lives (state s1) \<le> 0
           then save_high_score (s1\<lparr>state := (state s1)\<lparr>game_over := True\<rparr>\<rparr>)
         else s1)"

text \<open>
  The first loop of \<open>_check_collisions\<close>, over the obstacles still to visit: it returns
  the obstacles as the loop leaves them and the engine with the lives it took.
\<close>

fun check_obstacles :: "rect \<Rightarrow> Obstacle list \<Rightarrow> GameEngine \<Rightarrow> Obstacle list \<times> GameEngine" where
  "check_obstacles player_rect [] self = ([], self)"
| "check_obstacles player_rect (obstacle # rest) self =
     (if \<not> active obstacle then
        (let (rest', s') = check_obstacles player_rect rest self
         in (obstacle # rest', s'))
      else if rects_collide player_rect (object_rect obstacle) then
        (let s1 =
           (if obstacle_type obstacle = ''pit'' \<and> \<not> jumping (player self)
              then handle_collision self
            else if obstacle_type obstacle \<in> set [''tree'', ''rock'']
                    \<and> \<not> sliding (player self)
              then handle_collision self
            else self);
             (rest', s') = check_obstacles player_rect rest s1
         in (obstacle\<lparr>active := False\<rparr> # rest', s'))
      else
        (let (rest', s') = check_obstacles player_rect rest self
         in (obstacle # rest', s')))"

text \<open>The second loop, over the coins.\<close>

fun check_coins :: "rect \<Rightarrow> Coin list \<Rightarrow> GameEngine \<Rightarrow> Coin list \<times> GameEngine" where
  "check_coins player_rect [] self = ([], self)"
| "check_coins player_rect (coin # rest) self =
     (if collected coin then
        (let (rest', s') = check_coins player_rect rest self
         in (coin # rest', s'))
      else if rects_collide player_rect (object_rect coin) then
        (let s1 = self\<lparr>state := (state self)
                    \<lparr>coins_collected := coins_collected (state self) + 1,
                     score := score (state self) + 50\<rparr>\<rparr>;
             (rest', s') = check_coins player_rect rest s1
         in (coin\<lparr>collected := True\<rparr> # rest', s'))
      else
        (let (rest', s') = check_coins player_rect rest self
         in (coin # rest', s')))"

definition check_collisions :: "GameEngine \<Rightarrow> GameEngine" where
  "check_collisions self =
     (let player_rect = get_player_rect self;
          (obs', s1) = check_obstacles player_rect (obstacles self) self;
          s2 = s1\<lparr>obstacles := obs'\<rparr>;
          (cs', s3) = check_coins player_rect (coins s2) s2
      in s3\<lparr>coins := cs'\<rparr>)"

definition cleanup_objects :: "GameEngine \<Rightarrow> GameEngine" where
  "cleanup_objects self =
     self\<lparr>obstacles := filter (\<lambda>obs. pos_y (position obs) < 600) (obstacles self),
          coins := filter (\<lambda>coin. pos_y (position coin) < 600) (coins self)\<rparr>"

subsection \<open>The tick\<close>

definition update_game :: "real \<Rightarrow> Draws \<Rightarrow> GameEngine \<Rightarrow> GameEngine" where
  "update_game delta_time d self =
     (if game_over (state self) \<or> paused (state self) then self
      else
        (let s1 = self\<lparr>state := (state self)
                    \<lparr>distance := distance (state self)
                       + py_int (100 * delta_time * speed_multiplier (state self))\<rparr>\<rparr>;
             s2 = s1\<lparr>state := (state s1)
                    \<lparr>score := score (state s1)
                       + py_int (10 * delta_time * speed_multiplier (state s1))\<rparr>\<rparr>;
             s3 = s2\<lparr>state := (state s2)
                    \<lparr>speed_multiplier :=
                       min 3.0 (1.0 + of_int (distance (state s2)) / 10000)\<rparr>\<rparr>;
             s4 = update_player_actions delta_time s3;
             s5 = spawn_obstacles d s4;
             s6 = spawn_coins d s5;
             s7 = update_obstacles delta_time s6;
             s8 = update_coins delta_time s7;
             s9 = check_collisions s8
         in cleanup_objects s9))"

text \<open>The snapshot for the renderer: the player, the state, and the entities it draws.\<close>

definition get_game_objects :: "GameEngine \<Rightarrow> Player \<times> Obstacle list \<times> Coin list \<times> GameState" where
  "get_game_objects self =
     (player self,
      filter (\<lambda>obs. active obs) (obstacles self),
      filter (\<lambda>coin. \<not> collected coin) (coins self),
      state self)"

subsection \<open>Runs of the engine\<close>

text \<open>
  The calls the driver and the input layer make. The constructor runs \<open>reset_game\<close>, then
  \<open>load_high_score\<close>.
\<close>

datatype call = Tick real Draws | Move string | Pause | Reset real

fun apply_call :: "call \<Rightarrow> GameEngine \<Rightarrow> py_error + GameEngine" where
  "apply_call (Tick delta_time d) self = Inr (update_game delta_time d self)"
| "apply_call (Move direction) self = move_player direction self"
| "apply_call Pause self = Inr (pause_game self)"
| "apply_call (Reset now) self = Inr (reset_game now)"

fun run :: "call list \<Rightarrow> GameEngine \<Rightarrow> py_error + GameEngine" where
  "run [] self = Inr self"
| "run (c # cs) self =
     (case apply_call c self of Inl err \<Rightarrow> Inl err | Inr s' \<Rightarrow> run cs s')"

definition new_engine :: "real \<Rightarrow> score_file \<Rightarrow> GameEngine" where
  "new_engine now f = load_high_score f (reset_game now)"

text \<open>The calls a run is made of: a tick never goes back in time.\<close>

fun valid_call :: "call \<Rightarrow> bool" where
  "valid_call (Tick delta_time d) = (0 \<le> delta_time)"
| "valid_call _ = True"


text \<open>
  What holds of every engine a run can reach: the lane is one of the three, lives and
  \<open>game_over\<close> agree, and the speed is the one that the distance gives.
\<close>

definition engine_inv :: "GameEngine \<Rightarrow> bool" where
  "engine_inv s =
     (0 \<le> lane (player s) \<and> lane (player s) \<le> 2
      \<and> lives (state s) \<le> 3
      \<and> (game_over (state s) \<longleftrightarrow> lives (state s) \<le> 0)
      \<and> 0 \<le> distance (state s)
      \<and> speed_multiplier (state s) = min 3 (1 + of_int (distance (state s)) / 10000))"

fun is_reset :: "call \<Rightarrow> bool" where
  "is_reset (Reset now) = True"
| "is_reset _ = False"

subsection \<open>Sample draws\<close>

text \<open>
  Draws used to run the engine on concrete inputs: a tree spawned in the centre lane, a
  coin spawned in the centre lane, both, and nothing spawned. Every roll lies in
  \<open>[0, 1)\<close>, as \<open>random.random()\<close> returns it.
\<close>

definition tree_centre :: Draws where
  "tree_centre = \<lparr>obstacle_roll = 0, obstacle_lane_draw = 1, obstacle_type_draw = 0,
                  coin_roll = 0.5, coin_lane_draw = 0\<rparr>"

definition coin_centre :: Draws where
  "coin_centre = \<lparr>obstacle_roll = 0.5, obstacle_lane_draw = 0, obstacle_type_draw = 0,
                  coin_roll = 0, coin_lane_draw = 1\<rparr>"

definition tree_and_coin_centre :: Draws where
  "tree_and_coin_centre = \<lparr>obstacle_roll = 0, obstacle_lane_draw = 1, obstacle_type_draw = 0,
                  coin_roll = 0, coin_lane_draw = 1\<rparr>"

definition no_spawn :: Draws where
  "no_spawn = \<lparr>obstacle_roll = 0.5, obstacle_lane_draw = 0, obstacle_type_draw = 0,
               coin_roll = 0.5, coin_lane_draw = 0\<rparr>"

section \<open>Properties\<close>

subsection \<open>The collision loops\<close>

text \<open>Both loops change nothing of the engine but its \<open>state\<close>.\<close>
lemma handle_collision_frame:
  "handle_collision s = s\<lparr>state := state (handle_collision s)\<rparr>"
  by (simp add: handle_collision_def save_high_score_def Let_def)

lemma check_obstacles_frame:
  "check_obstacles pr obs s = (obs', s') \<Longrightarrow> s' = s\<lparr>state := state s'\<rparr>"
proof (induction obs arbitrary: s obs' s')
  case Nil
  then show ?case by simp
next
  case (Cons ob obs)
  show ?case
  proof (cases "active ob \<and> rects_collide pr (object_rect ob)")
    case False
    with Cons.prems obtain r where "check_obstacles pr obs s = (r, s')"
      by (auto split: prod.splits if_splits)
    then show ?thesis by (rule Cons.IH)
  next
    case True
    define s1 where "s1 = (if obstacle_type ob = ''pit'' \<and> \<not> jumping (player s)
              then handle_collision s
            else if obstacle_type ob \<in> set [''tree'', ''rock'']
                    \<and> \<not> sliding (player s)
              then handle_collision s
            else s)"
    from True Cons.prems obtain r where r: "check_obstacles pr obs s1 = (r, s')"
      by (auto simp: s1_def Let_def split: prod.splits if_splits)
    have "s' = s1\<lparr>state := state s'\<rparr>" using r by (rule Cons.IH)
    moreover have "s1 = s\<lparr>state := state s1\<rparr>"
      unfolding s1_def using handle_collision_frame[of s] by auto
    ultimately show ?thesis by (metis GameEngine.update_convs(1) GameEngine.surjective GameEngine.select_convs)
  qed
qed

lemma check_coins_frame:
  "check_coins pr cs s = (cs', s') \<Longrightarrow> s' = s\<lparr>state := state s'\<rparr>"
proof (induction cs arbitrary: s cs' s')
  case Nil
  then show ?case by simp
next
  case (Cons c cs)
  show ?case
  proof (cases "\<not> collected c \<and> rects_collide pr (object_rect c)")
    case False
    with Cons.prems obtain r where "check_coins pr cs s = (r, s')"
      by (auto split: prod.splits if_splits)
    then show ?thesis by (rule Cons.IH)
  next
    case True
    define s1 where "s1 = s\<lparr>state := (state s)
                    \<lparr>coins_collected := coins_collected (state s) + 1,
                     score := score (state s) + 50\<rparr>\<rparr>"
    from True Cons.prems obtain r where r: "check_coins pr cs s1 = (r, s')"
      by (auto simp: s1_def Let_def split: prod.splits if_splits)
    have "s' = s1\<lparr>state := state s'\<rparr>" using r by (rule Cons.IH)
    then show ?thesis by (simp add: s1_def)
  qed
qed

lemma handle_collision_player [simp]: "player (handle_collision s) = player s"
  by (simp add: handle_collision_def save_high_score_def Let_def)

lemma check_obstacles_player: "player (snd (check_obstacles pr obs s)) = player s"
  by (induction obs arbitrary: s) (simp_all add: Let_def split_beta)

lemma check_obstacles_fst:
  "fst (check_obstacles pr obs s) =
     map (\<lambda>ob. if active ob \<and> rects_collide pr (object_rect ob)
               then ob\<lparr>active := False\<rparr> else ob) obs"
  by (induction obs arbitrary: s) (simp_all add: Let_def split_beta)

lemma handle_collision_lives [simp]:
  "lives (state (handle_collision s)) = lives (state s) - 1"
  by (simp add: handle_collision_def save_high_score_def Let_def)

lemma check_obstacles_lives:
  "lives (state (snd (check_obstacles pr obs s))) =
     lives (state s) - int (length (filter
       (\<lambda>ob. active ob \<and> rects_collide pr (object_rect ob) \<and>
             (obstacle_type ob = ''pit'' \<and> \<not> jumping (player s) \<or>
              obstacle_type ob \<in> {''tree'', ''rock''} \<and> \<not> sliding (player s))) obs))"
  by (induction obs arbitrary: s) (simp_all add: Let_def split_beta)

lemma check_obstacles_state_pres:
  assumes "\<And>t. P (state t) \<Longrightarrow> P (state (handle_collision t))" and "P (state s)"
  shows "P (state (snd (check_obstacles pr obs s)))"
  using assms(2) by (induction obs arbitrary: s) (simp_all add: Let_def split_beta assms(1))

lemma check_coins_fst:
  "fst (check_coins pr cs s) =
     map (\<lambda>c. if \<not> collected c \<and> rects_collide pr (object_rect c)
               then c\<lparr>collected := True\<rparr> else c) cs"
  by (induction cs arbitrary: s) (simp_all add: Let_def split_beta)

lemma check_coins_count:
  "coins_collected (state (snd (check_coins pr cs s))) =
     coins_collected (state s) + int (length (filter
       (\<lambda>c. \<not> collected c \<and> rects_collide pr (object_rect c)) cs))"
  by (induction cs arbitrary: s) (simp_all add: Let_def split_beta)

lemma check_coins_score:
  "score (state (snd (check_coins pr cs s))) =
     score (state s) + 50 * int (length (filter
       (\<lambda>c. \<not> collected c \<and> rects_collide pr (object_rect c)) cs))"
  by (induction cs arbitrary: s) (simp_all add: Let_def split_beta)

lemma check_coins_state_pres:
  assumes "\<And>st k n. P st \<Longrightarrow> P (st\<lparr>coins_collected := k, score := n\<rparr>)" and "P (state s)"
  shows "P (state (snd (check_coins pr cs s)))"
  using assms(2) by (induction cs arbitrary: s) (simp_all add: Let_def split_beta assms(1))

lemma check_obstacles_snd:
  "snd (check_obstacles pr obs s) = s\<lparr>state := state (snd (check_obstacles pr obs s))\<rparr>"
  using check_obstacles_frame [of pr obs s] by (metis prod.collapse)

lemma check_coins_snd:
  "snd (check_coins pr cs s) = s\<lparr>state := state (snd (check_coins pr cs s))\<rparr>"
  using check_coins_frame [of pr cs s] by (metis prod.collapse)

lemma check_obstacles_fields:
  "obstacles (snd (check_obstacles pr obs s)) = obstacles s"
  "coins (snd (check_obstacles pr obs s)) = coins s"
  "jump_timer (snd (check_obstacles pr obs s)) = jump_timer s"
  "slide_timer (snd (check_obstacles pr obs s)) = slide_timer s"
  "last_update (snd (check_obstacles pr obs s)) = last_update s"
  by (subst check_obstacles_snd, simp)+

lemma check_coins_fields:
  "player (snd (check_coins pr cs s)) = player s"
  "obstacles (snd (check_coins pr cs s)) = obstacles s"
  "coins (snd (check_coins pr cs s)) = coins s"
  "jump_timer (snd (check_coins pr cs s)) = jump_timer s"
  "slide_timer (snd (check_coins pr cs s)) = slide_timer s"
  "last_update (snd (check_coins pr cs s)) = last_update s"
  by (subst check_coins_snd, simp)+

lemma check_collisions_player [simp]: "player (check_collisions s) = player s"
  by (simp add: check_collisions_def Let_def split_beta check_coins_fields check_obstacles_player)

lemma check_collisions_timers [simp]:
  "jump_timer (check_collisions s) = jump_timer s"
  "slide_timer (check_collisions s) = slide_timer s"
  "last_update (check_collisions s) = last_update s"
  by (simp_all add: check_collisions_def Let_def split_beta check_coins_fields check_obstacles_fields)

lemma check_collisions_obstacles:
  "obstacles (check_collisions s) =
     map (\<lambda>ob. if active ob \<and> rects_collide (get_player_rect s) (object_rect ob)
               then ob\<lparr>active := False\<rparr> else ob) (obstacles s)"
  by (simp add: check_collisions_def Let_def split_beta check_coins_fields check_obstacles_fst)

lemma check_collisions_coins:
  "coins (check_collisions s) =
     map (\<lambda>c. if \<not> collected c \<and> rects_collide (get_player_rect s) (object_rect c)
              then c\<lparr>collected := True\<rparr> else c) (coins s)"
  by (simp add: check_collisions_def Let_def split_beta check_coins_fst check_obstacles_fields)

lemma check_collisions_lives:
  "lives (state (check_collisions s)) =
     lives (state s) - int (length (filter
       (\<lambda>ob. active ob \<and> rects_collide (get_player_rect s) (object_rect ob) \<and>
             (obstacle_type ob = ''pit'' \<and> \<not> jumping (player s) \<or>
              obstacle_type ob \<in> {''tree'', ''rock''} \<and> \<not> sliding (player s)))
       (obstacles s)))"
proof -
  let ?pr = "get_player_rect s"
  let ?o = "check_obstacles ?pr (obstacles s) s"
  let ?s2 = "(snd ?o)\<lparr>obstacles := fst ?o\<rparr>"
  have "lives (state (snd (check_coins ?pr (coins ?s2) ?s2))) = lives (state ?s2)"
    by (rule check_coins_state_pres [where P = "\<lambda>st. lives st = lives (state ?s2)"]) simp_all
  then show ?thesis
    by (simp add: check_collisions_def Let_def split_beta check_obstacles_lives)
qed

lemma handle_collision_keeps:
  "score (state (handle_collision s)) = score (state s)"
  "coins_collected (state (handle_collision s)) = coins_collected (state s)"
  "distance (state (handle_collision s)) = distance (state s)"
  "speed_multiplier (state (handle_collision s)) = speed_multiplier (state s)"
  "paused (state (handle_collision s)) = paused (state s)"
  by (simp_all add: handle_collision_def save_high_score_def Let_def)

lemma check_collisions_coins_collected:
  "coins_collected (state (check_collisions s)) =
     coins_collected (state s) + int (length (filter
       (\<lambda>c. \<not> collected c \<and> rects_collide (get_player_rect s) (object_rect c)) (coins s)))"
proof -
  let ?pr = "get_player_rect s"
  let ?o = "check_obstacles ?pr (obstacles s) s"
  have "coins_collected (state (snd ?o)) = coins_collected (state s)"
    by (rule check_obstacles_state_pres [where P = "\<lambda>st. coins_collected st = coins_collected (state s)"])
       (simp_all add: handle_collision_keeps)
  then show ?thesis
    by (simp add: check_collisions_def Let_def split_beta check_coins_count check_obstacles_fields)
qed

lemma check_collisions_score:
  "score (state (check_collisions s)) =
     score (state s) + 50 * int (length (filter
       (\<lambda>c. \<not> collected c \<and> rects_collide (get_player_rect s) (object_rect c)) (coins s)))"
proof -
  let ?pr = "get_player_rect s"
  let ?o = "check_obstacles ?pr (obstacles s) s"
  have "score (state (snd ?o)) = score (state s)"
    by (rule check_obstacles_state_pres [where P = "\<lambda>st. score st = score (state s)"])
       (simp_all add: handle_collision_keeps)
  then show ?thesis
    by (simp add: check_collisions_def Let_def split_beta check_coins_score check_obstacles_fields)
qed

text \<open>A property of the state that a hit and a collected coin both keep is kept by the resolution.\<close>

lemma check_collisions_state_pres:
  assumes "\<And>t. P (state t) \<Longrightarrow> P (state (handle_collision t))"
    and "\<And>st k n. P st \<Longrightarrow> P (st\<lparr>coins_collected := k, score := n\<rparr>)"
    and "P (state s)"
  shows "P (state (check_collisions s))"
proof -
  let ?pr = "get_player_rect s"
  let ?o = "check_obstacles ?pr (obstacles s) s"
  let ?s2 = "(snd ?o)\<lparr>obstacles := fst ?o\<rparr>"
  have "P (state (snd ?o))" using assms(1,3) by (rule check_obstacles_state_pres)
  then have "P (state ?s2)" by simp
  with assms(2) have "P (state (snd (check_coins ?pr (coins ?s2) ?s2)))"
    by (rule check_coins_state_pres)
  then show ?thesis by (simp add: check_collisions_def Let_def split_beta)
qed


lemma step_state [simp]:
  "state (update_player_actions dt s) = state s"
  "state (spawn_obstacles d s) = state s"
  "state (spawn_coins d s) = state s"
  "state (update_obstacles dt s) = state s"
  "state (update_coins dt s) = state s"
  "state (cleanup_objects s) = state s"
  by (simp_all add: update_player_actions_def spawn_obstacles_def spawn_coins_def
      update_obstacles_def update_coins_def cleanup_objects_def Let_def)

lemma step_player [simp]:
  "player (spawn_obstacles d s) = player s"
  "player (spawn_coins d s) = player s"
  "player (update_obstacles dt s) = player s"
  "player (update_coins dt s) = player s"
  "player (cleanup_objects s) = player s"
  by (simp_all add: spawn_obstacles_def spawn_coins_def
      update_obstacles_def update_coins_def cleanup_objects_def Let_def)

lemma step_jump_timer [simp]:
  "jump_timer (spawn_obstacles d s) = jump_timer s"
  "jump_timer (spawn_coins d s) = jump_timer s"
  "jump_timer (update_obstacles dt s) = jump_timer s"
  "jump_timer (update_coins dt s) = jump_timer s"
  "jump_timer (cleanup_objects s) = jump_timer s"
  by (simp_all add: spawn_obstacles_def spawn_coins_def
      update_obstacles_def update_coins_def cleanup_objects_def Let_def)

lemma update_game_running:
  assumes "\<not> game_over (state s)" and "\<not> paused (state s)"
  shows "update_game dt d s =
     cleanup_objects (check_collisions (update_coins dt (update_obstacles dt
       (spawn_coins d (spawn_obstacles d (update_player_actions dt
         (s\<lparr>state := (state s)
              \<lparr>distance := distance (state s)
                 + py_int (100 * dt * speed_multiplier (state s)),
               score := score (state s)
                 + py_int (10 * dt * speed_multiplier (state s)),
               speed_multiplier :=
                 min 3 (1 + of_int (distance (state s)
                   + py_int (100 * dt * speed_multiplier (state s))) / 10000)\<rparr>\<rparr>)))))))"
  using assms by (simp add: update_game_def Let_def)

lemma update_player_actions_state_indep:
  "player (update_player_actions dt (s\<lparr>state := st\<rparr>)) = player (update_player_actions dt s)"
  "jump_timer (update_player_actions dt (s\<lparr>state := st\<rparr>)) = jump_timer (update_player_actions dt s)"
  "slide_timer (update_player_actions dt (s\<lparr>state := st\<rparr>)) = slide_timer (update_player_actions dt s)"
  by (simp_all add: update_player_actions_def Let_def)

lemma update_game_player:
  assumes "\<not> game_over (state s)" and "\<not> paused (state s)"
  shows "player (update_game dt d s) = player (update_player_actions dt s)"
    and "jump_timer (update_game dt d s) = jump_timer (update_player_actions dt s)"
  using assms by (simp_all add: update_game_running update_player_actions_state_indep)



text \<open>The tick as one composition of its steps, for evaluation on concrete engines.\<close>

lemma update_game_unfold:
  "update_game dt d s =
     (if game_over (state s) \<or> paused (state s) then s
      else cleanup_objects (check_collisions (update_coins dt (update_obstacles dt
       (spawn_coins d (spawn_obstacles d (update_player_actions dt
         (s\<lparr>state := (state s)
              \<lparr>distance := distance (state s)
                 + py_int (100 * dt * speed_multiplier (state s)),
               score := score (state s)
                 + py_int (10 * dt * speed_multiplier (state s)),
               speed_multiplier :=
                 min 3 (1 + of_int (distance (state s)
                   + py_int (100 * dt * speed_multiplier (state s))) / 10000)\<rparr>\<rparr>))))))))"
  by (simp add: update_game_def Let_def)

lemmas eval_defs = update_game_unfold update_player_actions_def spawn_obstacles_def spawn_coins_def
  update_obstacles_def update_coins_def check_collisions_def cleanup_objects_def
  get_player_rect_def object_rect_def handle_collision_def save_high_score_def
  new_engine_def reset_game_def load_high_score_def GameState_default_def
  advance_def floordiv2_def py_int_def randint_0_2_def choice_type_def
  LANE_POSITIONS_def PLAYER_HEIGHT_def PLAYER_WIDTH_def OBSTACLE_HEIGHT_def OBSTACLE_WIDTH_def
  COIN_SIZE_def JUMP_HEIGHT_def SLIDE_DURATION_def OBSTACLE_SPAWN_RATE_def COIN_SPAWN_RATE_def
  tree_centre_def coin_centre_def no_spawn_def tree_and_coin_centre_def Let_def

subsection \<open>Invariants of a run\<close>

lemma handle_collision_game_over:
  "game_over (state (handle_collision s)) = (game_over (state s) \<or> lives (state s) \<le> 1)"
  by (simp add: handle_collision_def save_high_score_def Let_def)

lemma update_game_state_running:
  assumes hc: "\<And>t. P (state t) \<Longrightarrow> P (state (handle_collision t))"
    and cc: "\<And>st k n. P st \<Longrightarrow> P (st\<lparr>coins_collected := k, score := n\<rparr>)"
    and run: "\<not> game_over (state s)" "\<not> paused (state s)"
    and adv: "P ((state s)
              \<lparr>distance := distance (state s)
                 + py_int (100 * dt * speed_multiplier (state s)),
               score := score (state s)
                 + py_int (10 * dt * speed_multiplier (state s)),
               speed_multiplier :=
                 min 3 (1 + of_int (distance (state s)
                   + py_int (100 * dt * speed_multiplier (state s))) / 10000)\<rparr>)"
  shows "P (state (update_game dt d s))"
proof -
  let ?x = "update_coins dt (update_obstacles dt
       (spawn_coins d (spawn_obstacles d (update_player_actions dt
         (s\<lparr>state := (state s)
              \<lparr>distance := distance (state s)
                 + py_int (100 * dt * speed_multiplier (state s)),
               score := score (state s)
                 + py_int (10 * dt * speed_multiplier (state s)),
               speed_multiplier :=
                 min 3 (1 + of_int (distance (state s)
                   + py_int (100 * dt * speed_multiplier (state s))) / 10000)\<rparr>\<rparr>)))))"
  have "P (state ?x)" unfolding step_state using adv by simp
  with hc cc have "P (state (check_collisions ?x))" by (rule check_collisions_state_pres)
  then show ?thesis unfolding update_game_running [OF run] step_state .
qed

lemma update_game_state_pres:
  assumes hc: "\<And>t. P (state t) \<Longrightarrow> P (state (handle_collision t))"
    and cc: "\<And>st k n. P st \<Longrightarrow> P (st\<lparr>coins_collected := k, score := n\<rparr>)"
    and adv: "\<not> game_over (state s) \<Longrightarrow> \<not> paused (state s) \<Longrightarrow>
       P ((state s)
              \<lparr>distance := distance (state s)
                 + py_int (100 * dt * speed_multiplier (state s)),
               score := score (state s)
                 + py_int (10 * dt * speed_multiplier (state s)),
               speed_multiplier :=
                 min 3 (1 + of_int (distance (state s)
                   + py_int (100 * dt * speed_multiplier (state s))) / 10000)\<rparr>)"
    and init: "P (state s)"
  shows "P (state (update_game dt d s))"
proof (cases "game_over (state s) \<or> paused (state s)")
  case True
  then show ?thesis using init by (simp add: update_game_unfold)
next
  case False
  then have run: "\<not> game_over (state s)" "\<not> paused (state s)" by simp_all
  from hc cc run adv [OF run] show ?thesis by (rule update_game_state_running)
qed

lemma update_game_lane: "lane (player (update_game dt d s)) = lane (player s)"
  by (simp add: update_game_unfold update_player_actions_def Let_def)

lemma py_int_nonneg: "0 \<le> v \<Longrightarrow> 0 \<le> py_int v"
  by (simp add: py_int_def)

lemma update_game_inv:
  assumes "0 \<le> dt" and "engine_inv s"
  shows "engine_inv (update_game dt d s) \<and> distance (state s) \<le> distance (state (update_game dt d s))"
proof -
  let ?P = "\<lambda>st. lives st \<le> 3 \<and> (game_over st \<longleftrightarrow> lives st \<le> 0) \<and> 0 \<le> distance st
      \<and> speed_multiplier st = min 3 (1 + of_int (distance st) / 10000)
      \<and> distance (state s) \<le> distance st"
  have sp: "0 \<le> speed_multiplier (state s)" using assms(2) by (simp add: engine_inv_def)
  have gain: "0 \<le> py_int (100 * dt * speed_multiplier (state s))"
    using assms(1) sp by (intro py_int_nonneg mult_nonneg_nonneg) simp_all
  have "?P (state (update_game dt d s))"
  proof (rule update_game_state_pres [where P = ?P])
    fix t :: GameEngine assume "?P (state t)"
    then show "?P (state (handle_collision t))"
      by (auto simp: handle_collision_game_over handle_collision_keeps)
  next
    fix st :: GameState and k n assume "?P st"
    then show "?P (st\<lparr>coins_collected := k, score := n\<rparr>)" by simp
  next
    show "?P ((state s)
              \<lparr>distance := distance (state s)
                 + py_int (100 * dt * speed_multiplier (state s)),
               score := score (state s)
                 + py_int (10 * dt * speed_multiplier (state s)),
               speed_multiplier :=
                 min 3 (1 + of_int (distance (state s)
                   + py_int (100 * dt * speed_multiplier (state s))) / 10000)\<rparr>)"
      using assms(2) gain by (simp add: engine_inv_def)
  next
    show "?P (state s)" using assms(2) by (simp add: engine_inv_def)
  qed
  then show ?thesis using assms(2) by (simp add: engine_inv_def update_game_lane)
qed

lemma lane_position_defined: "0 \<le> i \<Longrightarrow> i \<le> 2 \<Longrightarrow> \<exists>px. lane_position i = Inr px"
  by (simp add: lane_position_def LANE_POSITIONS_def)

lemma move_player_inv:
  assumes "engine_inv s"
  shows "\<exists>s'. move_player direction s = Inr s' \<and> engine_inv s' \<and> state s' = state s"
proof -
  have l: "0 \<le> lane (player s)" "lane (player s) \<le> 2" using assms by (simp_all add: engine_inv_def)
  consider (idle) "game_over (state s) \<or> paused (state s)"
    | (left) "\<not> (game_over (state s) \<or> paused (state s))" "direction = ''left''" "lane (player s) > 0"
    | (right) "\<not> (game_over (state s) \<or> paused (state s))" "direction = ''right''" "lane (player s) < 2"
    | (other) "\<not> (game_over (state s) \<or> paused (state s))"
        "\<not> (direction = ''left'' \<and> lane (player s) > 0)"
        "\<not> (direction = ''right'' \<and> lane (player s) < 2)"
    by auto
  then show ?thesis
  proof cases
    case idle
    then show ?thesis using assms by (simp add: move_player_def)
  next
    case left
    from left(3) l obtain px where "lane_position (lane (player s) - 1) = Inr px"
      using lane_position_defined [of "lane (player s) - 1"] by auto
    then show ?thesis using left assms by (simp add: move_player_def engine_inv_def)
  next
    case right
    from right(3) l obtain px where "lane_position (lane (player s) + 1) = Inr px"
      using lane_position_defined [of "lane (player s) + 1"] by auto
    then show ?thesis using right assms by (simp add: move_player_def engine_inv_def)
  next
    case other
    then have "move_player direction s = Inr s
        \<or> move_player direction s = Inr (s\<lparr>player := (player s)\<lparr>jumping := True\<rparr>, jump_timer := 0\<rparr>)
        \<or> move_player direction s = Inr (s\<lparr>player := (player s)\<lparr>sliding := True\<rparr>, slide_timer := 0\<rparr>)"
      unfolding move_player_def by presburger
    then show ?thesis using assms by (auto simp: engine_inv_def)
  qed
qed

lemma new_engine_inv: "engine_inv (new_engine now f)"
  by (simp add: engine_inv_def new_engine_def reset_game_def load_high_score_def
      GameState_default_def split: score_file.splits option.splits)

lemma reset_game_inv: "engine_inv (reset_game now)"
  by (simp add: engine_inv_def reset_game_def GameState_default_def)

lemma pause_game_inv: "engine_inv s \<Longrightarrow> engine_inv (pause_game s) \<and> distance (state (pause_game s)) = distance (state s)"
  by (simp add: engine_inv_def pause_game_def)

lemma apply_call_inv:
  assumes "valid_call c" and "engine_inv s"
  shows "\<exists>s'. apply_call c s = Inr s' \<and> engine_inv s'
           \<and> (\<not> is_reset c \<longrightarrow> distance (state s) \<le> distance (state s'))"
proof (cases c)
  case (Tick dt d)
  then show ?thesis using assms update_game_inv [of dt s d] by simp
next
  case (Move direction)
  then show ?thesis using move_player_inv [OF assms(2), of direction] by auto
next
  case Pause
  then show ?thesis using pause_game_inv [OF assms(2)] by simp
next
  case (Reset now)
  then show ?thesis by (simp add: reset_game_inv)
qed

lemma run_inv:
  assumes "list_all valid_call cs" and "engine_inv s"
  shows "\<exists>s'. run cs s = Inr s' \<and> engine_inv s'"
  using assms
proof (induction cs arbitrary: s)
  case Nil
  then show ?case by simp
next
  case (Cons c cs)
  then obtain s1 where "apply_call c s = Inr s1" "engine_inv s1"
    using apply_call_inv [of c s] by auto
  then show ?case using Cons by simp
qed

lemma run_distance_mono:
  assumes "list_all (\<lambda>c. valid_call c \<and> \<not> is_reset c) cs" and "engine_inv s"
  shows "\<exists>s'. run cs s = Inr s' \<and> engine_inv s' \<and> distance (state s) \<le> distance (state s')"
  using assms
proof (induction cs arbitrary: s)
  case Nil
  then show ?case by simp
next
  case (Cons c cs)
  then obtain s1 where s1: "apply_call c s = Inr s1" "engine_inv s1"
      "distance (state s) \<le> distance (state s1)"
    using apply_call_inv [of c s] by auto
  from Cons.IH [of s1] Cons.prems s1(2)
  obtain s' where "run cs s1 = Inr s'" "engine_inv s'" "distance (state s1) \<le> distance (state s')"
    by auto
  then show ?case using s1 by simp
qed


subsection \<open>What a tick does to the stored entities\<close>

lemma step_obstacles [simp]:
  "obstacles (update_player_actions dt s) = obstacles s"
  "obstacles (spawn_coins d s) = obstacles s"
  "obstacles (update_coins dt s) = obstacles s"
  "obstacles (update_obstacles dt s) =
     map (advance (300 * speed_multiplier (state s) * dt)) (obstacles s)"
  "obstacles (cleanup_objects s) = filter (\<lambda>ob. pos_y (position ob) < 600) (obstacles s)"
  by (simp_all add: update_player_actions_def spawn_coins_def update_coins_def
      update_obstacles_def cleanup_objects_def Let_def)

lemma step_coins [simp]:
  "coins (update_player_actions dt s) = coins s"
  "coins (spawn_obstacles d s) = coins s"
  "coins (update_obstacles dt s) = coins s"
  "coins (update_coins dt s) =
     map (advance (300 * speed_multiplier (state s) * dt)) (coins s)"
  "coins (cleanup_objects s) = filter (\<lambda>c. pos_y (position c) < 600) (coins s)"
  by (simp_all add: update_player_actions_def spawn_obstacles_def update_coins_def
      update_obstacles_def cleanup_objects_def Let_def)

lemma advance_flags [simp]:
  "active (advance dy ob) = active ob"
  "collected (advance dy c) = collected c"
  "pos_y (position (advance dy ob)) = pos_y (position ob) + dy"
  by (simp_all add: advance_def)

lemma update_game_speed:
  assumes "\<not> game_over (state s)" and "\<not> paused (state s)"
  shows "speed_multiplier (state (update_game dt d s)) =
           min 3 (1 + of_int (distance (state s)
                   + py_int (100 * dt * speed_multiplier (state s))) / 10000)"
    (is "_ = ?v")
  by (rule update_game_state_running [where P = "\<lambda>st. speed_multiplier st = ?v"])
     (simp_all add: handle_collision_keeps assms)

lemma spawn_obstacles_append:
  "\<exists>spawned. obstacles (spawn_obstacles d s) = obstacles s @ spawned
     \<and> (OBSTACLE_SPAWN_RATE * speed_multiplier (state s) \<le> obstacle_roll d \<longrightarrow> spawned = [])
     \<and> length spawned \<le> 1"
  by (simp add: spawn_obstacles_def Let_def)

lemma spawn_coins_append:
  "\<exists>spawned. coins (spawn_coins d s) = coins s @ spawned
     \<and> (COIN_SPAWN_RATE \<le> coin_roll d \<longrightarrow> spawned = [])
     \<and> length spawned \<le> 1"
  by (simp add: spawn_coins_def Let_def)

text \<open>The obstacles and coins a running tick stores, from those it found.\<close>

lemma update_game_obstacle_pass:
  assumes "\<not> game_over (state s)" and "\<not> paused (state s)"
  shows "\<exists>pr spawned.
           obstacles (update_game dt d s) =
             filter (\<lambda>ob. pos_y (position ob) < 600)
               (map (\<lambda>ob. if active ob \<and> rects_collide pr (object_rect ob)
                          then ob\<lparr>active := False\<rparr> else ob)
                  (map (advance (300 * speed_multiplier (state (update_game dt d s)) * dt))
                     (obstacles s @ spawned)))
         \<and> lives (state (update_game dt d s)) =
             lives (state s) - int (length (filter
               (\<lambda>ob. active ob \<and> rects_collide pr (object_rect ob) \<and>
                  (obstacle_type ob = ''pit'' \<and> \<not> jumping (player (update_game dt d s)) \<or>
                   obstacle_type ob \<in> {''tree'', ''rock''}
                     \<and> \<not> sliding (player (update_game dt d s))))
               (map (advance (300 * speed_multiplier (state (update_game dt d s)) * dt))
                  (obstacles s @ spawned))))
         \<and> (OBSTACLE_SPAWN_RATE * 3 \<le> obstacle_roll d \<longrightarrow> spawned = [])
         \<and> length spawned \<le> 1"
proof -
  let ?v = "min 3 (1 + of_int (distance (state s)
                   + py_int (100 * dt * speed_multiplier (state s))) / 10000)"
  let ?s3 = "s\<lparr>state := (state s)
              \<lparr>distance := distance (state s)
                 + py_int (100 * dt * speed_multiplier (state s)),
               score := score (state s)
                 + py_int (10 * dt * speed_multiplier (state s)),
               speed_multiplier := ?v\<rparr>\<rparr>"
  let ?s4 = "update_player_actions dt ?s3"
  let ?s8 = "update_coins dt (update_obstacles dt (spawn_coins d (spawn_obstacles d ?s4)))"
  obtain spawned where sp: "obstacles (spawn_obstacles d ?s4) = obstacles ?s4 @ spawned"
      "OBSTACLE_SPAWN_RATE * speed_multiplier (state ?s4) \<le> obstacle_roll d \<longrightarrow> spawned = []"
      "length spawned \<le> 1"
    using spawn_obstacles_append [of d ?s4] by blast
  have v: "speed_multiplier (state ?s4) = ?v" by simp
  have "OBSTACLE_SPAWN_RATE * ?v \<le> OBSTACLE_SPAWN_RATE * 3"
    by (simp add: OBSTACLE_SPAWN_RATE_def)
  with sp(2) have none: "OBSTACLE_SPAWN_RATE * 3 \<le> obstacle_roll d \<longrightarrow> spawned = []"
    unfolding v by linarith
  have o4: "obstacles ?s4 = obstacles s" by simp
  have o8: "obstacles ?s8 = map (advance (300 * ?v * dt)) (obstacles s @ spawned)"
    unfolding step_obstacles step_state sp(1) o4 by simp
  have l8: "lives (state ?s8) = lives (state s)" by simp
  have p: "player (update_game dt d s) = player ?s8"
    by (simp only: update_game_running [OF assms] step_player check_collisions_player)
  have obs: "obstacles (update_game dt d s) =
           filter (\<lambda>ob. pos_y (position ob) < 600)
             (map (\<lambda>ob. if active ob \<and> rects_collide (get_player_rect ?s8) (object_rect ob)
                        then ob\<lparr>active := False\<rparr> else ob)
                (map (advance (300 * ?v * dt)) (obstacles s @ spawned)))"
    by (simp only: update_game_running [OF assms] step_obstacles(5) check_collisions_obstacles o8)
  have "lives (state (update_game dt d s)) = lives (state (check_collisions ?s8))"
    by (simp only: update_game_running [OF assms] step_state)
  then have lv: "lives (state (update_game dt d s)) =
             lives (state s) - int (length (filter
               (\<lambda>ob. active ob \<and> rects_collide (get_player_rect ?s8) (object_rect ob) \<and>
                  (obstacle_type ob = ''pit'' \<and> \<not> jumping (player (update_game dt d s)) \<or>
                   obstacle_type ob \<in> {''tree'', ''rock''}
                     \<and> \<not> sliding (player (update_game dt d s))))
               (map (advance (300 * ?v * dt)) (obstacles s @ spawned))))"
    by (simp only: check_collisions_lives o8 l8 p)
  show ?thesis unfolding update_game_speed [OF assms] using obs lv none sp(3) by blast
qed

lemma update_game_coin_pass:
  assumes "\<not> game_over (state s)" and "\<not> paused (state s)"
  shows "\<exists>pr spawned.
           coins (update_game dt d s) =
             filter (\<lambda>c. pos_y (position c) < 600)
               (map (\<lambda>c. if \<not> collected c \<and> rects_collide pr (object_rect c)
                          then c\<lparr>collected := True\<rparr> else c)
                  (map (advance (300 * speed_multiplier (state (update_game dt d s)) * dt))
                     (coins s @ spawned)))
         \<and> coins_collected (state (update_game dt d s)) =
             coins_collected (state s) + int (length (filter
               (\<lambda>c. \<not> collected c \<and> rects_collide pr (object_rect c))
               (map (advance (300 * speed_multiplier (state (update_game dt d s)) * dt))
                  (coins s @ spawned))))
         \<and> score (state (update_game dt d s)) =
             score (state s) + py_int (10 * dt * speed_multiplier (state s))
             + 50 * int (length (filter
               (\<lambda>c. \<not> collected c \<and> rects_collide pr (object_rect c))
               (map (advance (300 * speed_multiplier (state (update_game dt d s)) * dt))
                  (coins s @ spawned))))
         \<and> (COIN_SPAWN_RATE \<le> coin_roll d \<longrightarrow> spawned = [])
         \<and> length spawned \<le> 1"
proof -
  let ?v = "min 3 (1 + of_int (distance (state s)
                   + py_int (100 * dt * speed_multiplier (state s))) / 10000)"
  let ?s3 = "s\<lparr>state := (state s)
              \<lparr>distance := distance (state s)
                 + py_int (100 * dt * speed_multiplier (state s)),
               score := score (state s)
                 + py_int (10 * dt * speed_multiplier (state s)),
               speed_multiplier := ?v\<rparr>\<rparr>"
  let ?s5 = "spawn_obstacles d (update_player_actions dt ?s3)"
  let ?s8 = "update_coins dt (update_obstacles dt (spawn_coins d ?s5))"
  obtain spawned where sp: "coins (spawn_coins d ?s5) = coins ?s5 @ spawned"
      "COIN_SPAWN_RATE \<le> coin_roll d \<longrightarrow> spawned = []"
      "length spawned \<le> 1"
    using spawn_coins_append [of d ?s5] by blast
  have c5: "coins ?s5 = coins s" by simp
  have c8: "coins ?s8 = map (advance (300 * ?v * dt)) (coins s @ spawned)"
    unfolding step_coins step_state sp(1) c5 by simp
  have n8: "coins_collected (state ?s8) = coins_collected (state s)" by simp
  have sc8: "score (state ?s8) = score (state s) + py_int (10 * dt * speed_multiplier (state s))"
    by simp
  have cs: "coins (update_game dt d s) =
           filter (\<lambda>c. pos_y (position c) < 600)
             (map (\<lambda>c. if \<not> collected c \<and> rects_collide (get_player_rect ?s8) (object_rect c)
                        then c\<lparr>collected := True\<rparr> else c)
                (map (advance (300 * ?v * dt)) (coins s @ spawned)))"
    by (simp only: update_game_running [OF assms] step_coins(5) check_collisions_coins c8)
  have "coins_collected (state (update_game dt d s)) = coins_collected (state (check_collisions ?s8))"
    by (simp only: update_game_running [OF assms] step_state)
  then have n: "coins_collected (state (update_game dt d s)) =
             coins_collected (state s) + int (length (filter
               (\<lambda>c. \<not> collected c \<and> rects_collide (get_player_rect ?s8) (object_rect c))
               (map (advance (300 * ?v * dt)) (coins s @ spawned))))"
    by (simp only: check_collisions_coins_collected c8 n8)
  have "score (state (update_game dt d s)) = score (state (check_collisions ?s8))"
    by (simp only: update_game_running [OF assms] step_state)
  then have sc: "score (state (update_game dt d s)) =
             score (state s) + py_int (10 * dt * speed_multiplier (state s))
             + 50 * int (length (filter
               (\<lambda>c. \<not> collected c \<and> rects_collide (get_player_rect ?s8) (object_rect c))
               (map (advance (300 * ?v * dt)) (coins s @ spawned))))"
    by (simp only: check_collisions_score c8 sc8)
  show ?thesis unfolding update_game_speed [OF assms] using cs n sc sp(2,3) by blast
qed

lemma advance_active_count:
  "length (filter active (map (advance dy) xs)) = length (filter active xs)"
  by (induction xs) simp_all

lemma advance_uncollected_count:
  "length (filter (\<lambda>c. \<not> collected c) (map (advance dy) cs))
     = length (filter (\<lambda>c. \<not> collected c) cs)"
  by (induction cs) simp_all

lemma resolved_obstacles_count:
  "int (length (filter (\<lambda>ob. active ob \<and> C ob \<and> K ob) xs))
     + int (length (filter active (filter F
         (map (\<lambda>ob. if active ob \<and> C ob then ob\<lparr>active := False\<rparr> else ob) xs))))
   \<le> int (length (filter active xs))"
  by (induction xs) auto

lemma resolved_coins_count:
  "int (length (filter (\<lambda>c. \<not> collected c \<and> C c) cs))
     + int (length (filter (\<lambda>c. \<not> collected c) (filter F
         (map (\<lambda>c. if \<not> collected c \<and> C c then c\<lparr>collected := True\<rparr> else c) cs))))
   \<le> int (length (filter (\<lambda>c. \<not> collected c) cs))"
  by (induction cs) auto

text \<open>
  Over one tick, the lives lost and the obstacles still active afterwards together are
  no more than the obstacles active before and the obstacle spawned.
\<close>

lemma update_game_lives_bound:
  "lives (state (update_game dt d s)) \<le> lives (state s)
   \<and> (lives (state s) - lives (state (update_game dt d s)))
       + int (length (filter active (obstacles (update_game dt d s))))
     \<le> int (length (filter active (obstacles s)))
       + (if OBSTACLE_SPAWN_RATE * 3 \<le> obstacle_roll d then 0 else 1)"
proof (cases "game_over (state s) \<or> paused (state s)")
  case True
  then show ?thesis by (simp add: update_game_unfold)
next
  case False
  then have run: "\<not> game_over (state s)" "\<not> paused (state s)" by simp_all
  from update_game_obstacle_pass [OF run, of dt d]
  obtain pr spawned where
    obs: "obstacles (update_game dt d s) =
             filter (\<lambda>ob. pos_y (position ob) < 600)
               (map (\<lambda>ob. if active ob \<and> rects_collide pr (object_rect ob)
                          then ob\<lparr>active := False\<rparr> else ob)
                  (map (advance (300 * speed_multiplier (state (update_game dt d s)) * dt))
                     (obstacles s @ spawned)))"
    and lv: "lives (state (update_game dt d s)) =
             lives (state s) - int (length (filter
               (\<lambda>ob. active ob \<and> rects_collide pr (object_rect ob) \<and>
                  (obstacle_type ob = ''pit'' \<and> \<not> jumping (player (update_game dt d s)) \<or>
                   obstacle_type ob \<in> {''tree'', ''rock''}
                     \<and> \<not> sliding (player (update_game dt d s))))
               (map (advance (300 * speed_multiplier (state (update_game dt d s)) * dt))
                  (obstacles s @ spawned))))"
    and none: "OBSTACLE_SPAWN_RATE * 3 \<le> obstacle_roll d \<longrightarrow> spawned = []"
    and one: "length spawned \<le> 1"
    by blast
  let ?xs = "map (advance (300 * speed_multiplier (state (update_game dt d s)) * dt))
                  (obstacles s @ spawned)"
  let ?K = "\<lambda>ob. obstacle_type ob = ''pit'' \<and> \<not> jumping (player (update_game dt d s)) \<or>
                   obstacle_type ob \<in> {''tree'', ''rock''}
                     \<and> \<not> sliding (player (update_game dt d s))"
  have "(lives (state s) - lives (state (update_game dt d s)))
       + int (length (filter active (obstacles (update_game dt d s))))
     \<le> int (length (filter active ?xs))"
    unfolding obs lv
    using resolved_obstacles_count [of "\<lambda>ob. rects_collide pr (object_rect ob)" ?K ?xs
        "\<lambda>ob. pos_y (position ob) < 600"]
    by simp
  also have "length (filter active ?xs) = length (filter active (obstacles s @ spawned))"
    by (rule advance_active_count)
  also have "int (length (filter active (obstacles s @ spawned)))
      \<le> int (length (filter active (obstacles s)))
       + (if OBSTACLE_SPAWN_RATE * 3 \<le> obstacle_roll d then 0 else 1)"
  proof -
    have "length (filter active spawned) \<le> 1"
      by (rule le_trans [OF length_filter_le one])
    with none show ?thesis by auto
  qed
  finally have bound: "(lives (state s) - lives (state (update_game dt d s)))
       + int (length (filter active (obstacles (update_game dt d s))))
     \<le> int (length (filter active (obstacles s)))
       + (if OBSTACLE_SPAWN_RATE * 3 \<le> obstacle_roll d then 0 else 1)" .
  have "lives (state (update_game dt d s)) \<le> lives (state s)" unfolding lv by simp
  with bound show ?thesis by blast
qed

lemma update_game_coins_bound:
  "coins_collected (state s) \<le> coins_collected (state (update_game dt d s))
   \<and> (coins_collected (state (update_game dt d s)) - coins_collected (state s))
       + int (length (filter (\<lambda>c. \<not> collected c) (coins (update_game dt d s))))
     \<le> int (length (filter (\<lambda>c. \<not> collected c) (coins s)))
       + (if COIN_SPAWN_RATE \<le> coin_roll d then 0 else 1)
   \<and> score (state (update_game dt d s)) =
       (if game_over (state s) \<or> paused (state s) then score (state s)
        else score (state s) + py_int (10 * dt * speed_multiplier (state s))
             + 50 * (coins_collected (state (update_game dt d s)) - coins_collected (state s)))"
proof (cases "game_over (state s) \<or> paused (state s)")
  case True
  then show ?thesis by (simp add: update_game_unfold)
next
  case False
  then have run: "\<not> game_over (state s)" "\<not> paused (state s)" by simp_all
  from update_game_coin_pass [OF run, of dt d]
  obtain pr spawned where
    cs: "coins (update_game dt d s) =
             filter (\<lambda>c. pos_y (position c) < 600)
               (map (\<lambda>c. if \<not> collected c \<and> rects_collide pr (object_rect c)
                          then c\<lparr>collected := True\<rparr> else c)
                  (map (advance (300 * speed_multiplier (state (update_game dt d s)) * dt))
                     (coins s @ spawned)))"
    and n: "coins_collected (state (update_game dt d s)) =
             coins_collected (state s) + int (length (filter
               (\<lambda>c. \<not> collected c \<and> rects_collide pr (object_rect c))
               (map (advance (300 * speed_multiplier (state (update_game dt d s)) * dt))
                  (coins s @ spawned))))"
    and sc: "score (state (update_game dt d s)) =
             score (state s) + py_int (10 * dt * speed_multiplier (state s))
             + 50 * int (length (filter
               (\<lambda>c. \<not> collected c \<and> rects_collide pr (object_rect c))
               (map (advance (300 * speed_multiplier (state (update_game dt d s)) * dt))
                  (coins s @ spawned))))"
    and none: "COIN_SPAWN_RATE \<le> coin_roll d \<longrightarrow> spawned = []"
    and one: "length spawned \<le> 1"
    by blast
  let ?xs = "map (advance (300 * speed_multiplier (state (update_game dt d s)) * dt))
                  (coins s @ spawned)"
  have "(coins_collected (state (update_game dt d s)) - coins_collected (state s))
       + int (length (filter (\<lambda>c. \<not> collected c) (coins (update_game dt d s))))
     \<le> int (length (filter (\<lambda>c. \<not> collected c) ?xs))"
    unfolding cs n
    using resolved_coins_count [of "\<lambda>c. rects_collide pr (object_rect c)" ?xs
        "\<lambda>c. pos_y (position c) < 600"]
    by simp
  also have "length (filter (\<lambda>c. \<not> collected c) ?xs)
      = length (filter (\<lambda>c. \<not> collected c) (coins s @ spawned))"
    by (rule advance_uncollected_count)
  also have "int (length (filter (\<lambda>c. \<not> collected c) (coins s @ spawned)))
      \<le> int (length (filter (\<lambda>c. \<not> collected c) (coins s)))
       + (if COIN_SPAWN_RATE \<le> coin_roll d then 0 else 1)"
  proof -
    have "length (filter (\<lambda>c. \<not> collected c) spawned) \<le> 1"
      by (rule le_trans [OF length_filter_le one])
    with none show ?thesis by auto
  qed
  finally have bound: "(coins_collected (state (update_game dt d s)) - coins_collected (state s))
       + int (length (filter (\<lambda>c. \<not> collected c) (coins (update_game dt d s))))
     \<le> int (length (filter (\<lambda>c. \<not> collected c) (coins s)))
       + (if COIN_SPAWN_RATE \<le> coin_roll d then 0 else 1)" .
  have up: "coins_collected (state s) \<le> coins_collected (state (update_game dt d s))"
    unfolding n by simp
  have "score (state (update_game dt d s)) =
       score (state s) + py_int (10 * dt * speed_multiplier (state s))
             + 50 * (coins_collected (state (update_game dt d s)) - coins_collected (state s))"
    unfolding sc n by simp
  with bound up False show ?thesis by simp
qed

lemma get_player_rect_player:
  "player a = player b \<Longrightarrow> get_player_rect a = get_player_rect b"
  by (simp add: get_player_rect_def)

lemma spawn_obstacles_split:
  "obstacles (spawn_obstacles d s) = obstacles s @ obstacles (spawn_obstacles d (s\<lparr>obstacles := []\<rparr>))"
  by (simp add: spawn_obstacles_def Let_def)

lemma spawn_obstacles_speed:
  "speed_multiplier (state a) = speed_multiplier (state b) \<Longrightarrow>
     obstacles (spawn_obstacles d (a\<lparr>obstacles := []\<rparr>))
       = obstacles (spawn_obstacles d (b\<lparr>obstacles := []\<rparr>))"
  by (simp add: spawn_obstacles_def Let_def)

lemma spawn_coins_split:
  "coins (spawn_coins d s) = coins s @ coins (spawn_coins d (s\<lparr>coins := []\<rparr>))"
  by (simp add: spawn_coins_def Let_def)

lemma spawn_coins_any:
  "coins (spawn_coins d (a\<lparr>coins := []\<rparr>)) = coins (spawn_coins d (b\<lparr>coins := []\<rparr>))"
  by (simp add: spawn_coins_def Let_def)

text \<open>The storage a running tick leaves, in full.\<close>

lemma update_game_obstacles_exact:
  assumes "\<not> game_over (state s)" and "\<not> paused (state s)"
  shows "obstacles (update_game dt d s) =
           filter (\<lambda>ob. pos_y (position ob) < 600)
             (map (\<lambda>ob. if active ob
                            \<and> rects_collide (get_player_rect (update_game dt d s)) (object_rect ob)
                        then ob\<lparr>active := False\<rparr> else ob)
                (map (advance (300 * speed_multiplier (state (update_game dt d s)) * dt))
                   (obstacles s
                      @ obstacles (spawn_obstacles d ((update_game dt d s)\<lparr>obstacles := []\<rparr>)))))"
proof -
  let ?v = "min 3 (1 + of_int (distance (state s)
                   + py_int (100 * dt * speed_multiplier (state s))) / 10000)"
  let ?s3 = "s\<lparr>state := (state s)
              \<lparr>distance := distance (state s)
                 + py_int (100 * dt * speed_multiplier (state s)),
               score := score (state s)
                 + py_int (10 * dt * speed_multiplier (state s)),
               speed_multiplier := ?v\<rparr>\<rparr>"
  let ?s4 = "update_player_actions dt ?s3"
  let ?s8 = "update_coins dt (update_obstacles dt (spawn_coins d (spawn_obstacles d ?s4)))"
  have vU: "speed_multiplier (state (update_game dt d s)) = ?v"
    by (rule update_game_speed [OF assms])
  have v4: "speed_multiplier (state ?s4) = ?v" by simp
  have o4: "obstacles ?s4 = obstacles s" by simp
  have sp: "obstacles (spawn_obstacles d ?s4)
      = obstacles s @ obstacles (spawn_obstacles d ((update_game dt d s)\<lparr>obstacles := []\<rparr>))"
    using spawn_obstacles_split [of d ?s4]
      spawn_obstacles_speed [of ?s4 "update_game dt d s" d]
    unfolding o4 v4 vU by simp
  have o8: "obstacles ?s8 = map (advance (300 * ?v * dt))
      (obstacles s @ obstacles (spawn_obstacles d ((update_game dt d s)\<lparr>obstacles := []\<rparr>)))"
    unfolding step_obstacles step_state sp by simp
  have p: "player ?s8 = player (update_game dt d s)"
    by (simp only: update_game_running [OF assms] step_player check_collisions_player)
  have r: "get_player_rect ?s8 = get_player_rect (update_game dt d s)"
    using p by (rule get_player_rect_player)
  have "obstacles (update_game dt d s) =
           filter (\<lambda>ob. pos_y (position ob) < 600)
             (map (\<lambda>ob. if active ob \<and> rects_collide (get_player_rect ?s8) (object_rect ob)
                        then ob\<lparr>active := False\<rparr> else ob)
                (obstacles ?s8))"
    by (simp only: update_game_running [OF assms] step_obstacles(5) check_collisions_obstacles)
  then show ?thesis unfolding r o8 vU .
qed

lemma update_game_coins_exact:
  assumes "\<not> game_over (state s)" and "\<not> paused (state s)"
  shows "coins (update_game dt d s) =
           filter (\<lambda>c. pos_y (position c) < 600)
             (map (\<lambda>c. if \<not> collected c
                            \<and> rects_collide (get_player_rect (update_game dt d s)) (object_rect c)
                        then c\<lparr>collected := True\<rparr> else c)
                (map (advance (300 * speed_multiplier (state (update_game dt d s)) * dt))
                   (coins s @ coins (spawn_coins d ((update_game dt d s)\<lparr>coins := []\<rparr>)))))"
proof -
  let ?v = "min 3 (1 + of_int (distance (state s)
                   + py_int (100 * dt * speed_multiplier (state s))) / 10000)"
  let ?s3 = "s\<lparr>state := (state s)
              \<lparr>distance := distance (state s)
                 + py_int (100 * dt * speed_multiplier (state s)),
               score := score (state s)
                 + py_int (10 * dt * speed_multiplier (state s)),
               speed_multiplier := ?v\<rparr>\<rparr>"
  let ?s5 = "spawn_obstacles d (update_player_actions dt ?s3)"
  let ?s8 = "update_coins dt (update_obstacles dt (spawn_coins d ?s5))"
  have vU: "speed_multiplier (state (update_game dt d s)) = ?v"
    by (rule update_game_speed [OF assms])
  have c5: "coins ?s5 = coins s" by simp
  have sp: "coins (spawn_coins d ?s5)
      = coins s @ coins (spawn_coins d ((update_game dt d s)\<lparr>coins := []\<rparr>))"
    using spawn_coins_split [of d ?s5] spawn_coins_any [of d ?s5 "update_game dt d s"]
    unfolding c5 by simp
  have c8: "coins ?s8 = map (advance (300 * ?v * dt))
      (coins s @ coins (spawn_coins d ((update_game dt d s)\<lparr>coins := []\<rparr>)))"
    unfolding step_coins step_state sp by simp
  have p: "player ?s8 = player (update_game dt d s)"
    by (simp only: update_game_running [OF assms] step_player check_collisions_player)
  have r: "get_player_rect ?s8 = get_player_rect (update_game dt d s)"
    using p by (rule get_player_rect_player)
  have "coins (update_game dt d s) =
           filter (\<lambda>c. pos_y (position c) < 600)
             (map (\<lambda>c. if \<not> collected c \<and> rects_collide (get_player_rect ?s8) (object_rect c)
                        then c\<lparr>collected := True\<rparr> else c)
                (coins ?s8))"
    by (simp only: update_game_running [OF assms] step_coins(5) check_collisions_coins)
  then show ?thesis unfolding r c8 vU .
qed

subsection \<open>Claims about single calls\<close>

text \<open>
  Claim C6. While the game runs, \<open>move_player ''up''\<close> on a player who is not jumping
  sets \<open>jumping\<close> and puts \<open>jump_timer\<close> at 0. A tick on a jumping player adds
  \<open>delta_time\<close> to \<open>jump_timer\<close>; with \<open>t\<close> the new timer, the jump height is
  \<open>80 * (t / 0.5)\<close> when \<open>t < 0.5\<close> and \<open>80 * (1 - (t - 0.5) / 0.5)\<close> when
  \<open>0.5 \<le> t < 1\<close>, which is 80 at \<open>t = 0.5\<close>; when \<open>1 \<le> t\<close> the tick clears
  \<open>jumping\<close> and sets the height and the timer to 0.
\<close>

theorem jump_profile:
  assumes "\<not> game_over (state s)" and "\<not> paused (state s)"
  shows "(\<not> jumping (player s) \<longrightarrow>
            (\<exists>s'. move_player ''up'' s = Inr s' \<and> jumping (player s') \<and> jump_timer s' = 0))
       \<and> (jumping (player s) \<and> jump_timer s + dt < 0.5 \<longrightarrow>
            jumping (player (update_game dt d s))
            \<and> jump_timer (update_game dt d s) = jump_timer s + dt
            \<and> jump_height (player (update_game dt d s)) = 80 * ((jump_timer s + dt) / 0.5))
       \<and> (jumping (player s) \<and> 0.5 \<le> jump_timer s + dt \<and> jump_timer s + dt < 1.0 \<longrightarrow>
            jumping (player (update_game dt d s))
            \<and> jump_timer (update_game dt d s) = jump_timer s + dt
            \<and> jump_height (player (update_game dt d s))
                = 80 * (1 - ((jump_timer s + dt) - 0.5) / 0.5))
       \<and> (jumping (player s) \<and> jump_timer s + dt = 0.5 \<longrightarrow>
            jump_height (player (update_game dt d s)) = 80)
       \<and> (jumping (player s) \<and> 1.0 \<le> jump_timer s + dt \<longrightarrow>
            \<not> jumping (player (update_game dt d s))
            \<and> jump_height (player (update_game dt d s)) = 0
            \<and> jump_timer (update_game dt d s) = 0)"
  using assms
  by (simp add: update_game_player move_player_def update_player_actions_def Let_def JUMP_HEIGHT_def)

text \<open>
  Claim C5. While the engine is paused or the game is over, a tick (of any
  \<open>delta_time\<close> and any draws) returns the engine as it was, and so does a move in any
  direction, without an error.
\<close>

theorem paused_or_over_noop:
  assumes "paused (state s) \<or> game_over (state s)"
  shows "update_game dt d s = s \<and> move_player direction s = Inr s"
  using assms by (auto simp: update_game_def move_player_def)

text \<open>
  Claim C9. A move in a direction other than \<open>left\<close>, \<open>right\<close>, \<open>up\<close> and
  \<open>down\<close> returns the engine as it was, in every state and without an error.
\<close>

theorem unknown_direction_noop:
  assumes "direction \<notin> {''left'', ''right'', ''up'', ''down''}"
  shows "move_player direction s = Inr s"
  using assms by (simp add: move_player_def)

text \<open>
  Claim C10. In every state, also when the game is over, \<open>pause_game\<close> negates
  \<open>paused\<close>; putting the old flag back gives the engine as it was, so no other field
  changes, and the engine it returns is never the one it was given.
\<close>

theorem pause_game_toggles:
  "paused (state (pause_game s)) = (\<not> paused (state s))
   \<and> (pause_game s)\<lparr>state := (state (pause_game s))\<lparr>paused := paused (state s)\<rparr>\<rparr> = s
   \<and> pause_game s \<noteq> s
   \<and> game_over (state (pause_game s)) = game_over (state s)"
proof -
  have "paused (state (pause_game s)) \<noteq> paused (state s)"
    by (simp add: pause_game_def)
  then have "pause_game s \<noteq> s" by auto
  then show ?thesis by (simp add: pause_game_def)
qed



theorem jump_profile_witness:
  "\<not> game_over (state (new_engine 0 NoFile)) \<and> \<not> paused (state (new_engine 0 NoFile))
   \<and> \<not> jumping (player (new_engine 0 NoFile))
   \<and> move_player ''up'' (new_engine 0 NoFile)
       = Inr ((new_engine 0 NoFile)\<lparr>player := (player (new_engine 0 NoFile))\<lparr>jumping := True\<rparr>,
                                   jump_timer := 0\<rparr>)
   \<and> jump_height (player (update_game 0.5 no_spawn
        ((new_engine 0 NoFile)\<lparr>player := (player (new_engine 0 NoFile))\<lparr>jumping := True\<rparr>,
                                   jump_timer := 0\<rparr>))) = 80
   \<and> \<not> jumping (player (update_game 1 no_spawn
        ((new_engine 0 NoFile)\<lparr>player := (player (new_engine 0 NoFile))\<lparr>jumping := True\<rparr>,
                                   jump_timer := 0\<rparr>)))"
proof -
  let ?e = "new_engine 0 NoFile"
  let ?j = "?e\<lparr>player := (player ?e)\<lparr>jumping := True\<rparr>, jump_timer := 0\<rparr>"
  have e: "\<not> game_over (state ?e)" "\<not> paused (state ?e)" "\<not> jumping (player ?e)"
    by (simp_all add: new_engine_def reset_game_def load_high_score_def GameState_default_def)
  have j: "\<not> game_over (state ?j)" "\<not> paused (state ?j)" "jumping (player ?j)" "jump_timer ?j = 0"
    using e by simp_all
  have up: "move_player ''up'' ?e = Inr ?j"
    using e by (simp add: move_player_def)
  from jump_profile [OF j(1,2), of "0.5" no_spawn] j(3,4)
  have peak: "jump_height (player (update_game 0.5 no_spawn ?j)) = 80" by simp
  from jump_profile [OF j(1,2), of 1 no_spawn] j(3,4)
  have land: "\<not> jumping (player (update_game 1 no_spawn ?j))" by simp
  show ?thesis using e up peak land by simp
qed

theorem paused_or_over_noop_witness:
  "(paused (state (pause_game (new_engine 0 NoFile)))
      \<or> game_over (state (pause_game (new_engine 0 NoFile))))
   \<and> update_game (1 / 60) tree_and_coin_centre (pause_game (new_engine 0 NoFile))
       = pause_game (new_engine 0 NoFile)
   \<and> move_player ''left'' (pause_game (new_engine 0 NoFile))
       = Inr (pause_game (new_engine 0 NoFile))"
proof -
  have h: "paused (state (pause_game (new_engine 0 NoFile)))
      \<or> game_over (state (pause_game (new_engine 0 NoFile)))"
    by (simp add: pause_game_def new_engine_def reset_game_def load_high_score_def
        GameState_default_def)
  from paused_or_over_noop [OF h, of "1 / 60" tree_and_coin_centre "''left''"] h
  show ?thesis by simp
qed

theorem unknown_direction_noop_witness:
  "''jump'' \<notin> {''left'', ''right'', ''up'', ''down''}
   \<and> move_player ''jump'' (new_engine 0 NoFile) = Inr (new_engine 0 NoFile)"
proof -
  have h: "''jump'' \<notin> {''left'', ''right'', ''up'', ''down''}" by simp
  from unknown_direction_noop [OF h, of "new_engine 0 NoFile"] h show ?thesis by simp
qed

theorem pause_game_toggles_witness:
  "paused (state (pause_game (new_engine 0 NoFile)))
   \<and> \<not> paused (state (pause_game (pause_game (new_engine 0 NoFile))))"
  using pause_game_toggles [of "new_engine 0 NoFile"]
        pause_game_toggles [of "pause_game (new_engine 0 NoFile)"]
  by (simp add: new_engine_def reset_game_def load_high_score_def GameState_default_def)

subsection \<open>Claims about runs and ticks\<close>

text \<open>
  Claim C8. After any calls (ticks with \<open>delta_time \<ge> 0\<close>, moves, pauses, resets) on a
  new engine, no call raises and the speed multiplier is
  \<open>1.0 + distance / 10000\<close> clamped to \<open>[1.0, 3.0]\<close>: 1.0 at distance 0, 1.5 at
  distance 5000, 3.0 from distance 20000 on; and over any further calls with no reset
  among them it does not decrease.
\<close>

theorem speed_multiplier_scaling:
  assumes "list_all valid_call cs"
  shows "\<exists>s. run cs (new_engine now f) = Inr s
     \<and> speed_multiplier (state s) = max 1 (min 3 (1 + of_int (distance (state s)) / 10000))
     \<and> (distance (state s) = 0 \<longrightarrow> speed_multiplier (state s) = 1)
     \<and> (distance (state s) = 5000 \<longrightarrow> speed_multiplier (state s) = 1.5)
     \<and> (20000 \<le> distance (state s) \<longrightarrow> speed_multiplier (state s) = 3)
     \<and> (\<forall>cs'. list_all (\<lambda>c. valid_call c \<and> \<not> is_reset c) cs' \<longrightarrow>
           (\<exists>s'. run cs' s = Inr s'
              \<and> speed_multiplier (state s) \<le> speed_multiplier (state s')))"
proof -
  from run_inv [OF assms new_engine_inv]
  obtain s where s: "run cs (new_engine now f) = Inr s" "engine_inv s" by blast
  have d: "0 \<le> distance (state s)"
    and v: "speed_multiplier (state s) = min 3 (1 + of_int (distance (state s)) / 10000)"
    using s(2) by (simp_all add: engine_inv_def)
  have clamp: "speed_multiplier (state s) = max 1 (min 3 (1 + of_int (distance (state s)) / 10000))"
    using d v by simp
  have later: "\<exists>s'. run cs' s = Inr s' \<and> speed_multiplier (state s) \<le> speed_multiplier (state s')"
    if "list_all (\<lambda>c. valid_call c \<and> \<not> is_reset c) cs'" for cs'
  proof -
    from run_distance_mono [OF that s(2)]
    obtain s' where s': "run cs' s = Inr s'" "engine_inv s'"
        "distance (state s) \<le> distance (state s')" by blast
    have "speed_multiplier (state s') = min 3 (1 + of_int (distance (state s')) / 10000)"
      using s'(2) by (simp add: engine_inv_def)
    with v s'(3) have "speed_multiplier (state s) \<le> speed_multiplier (state s')" by simp
    with s'(1) show ?thesis by blast
  qed
  have "distance (state s) = 0 \<longrightarrow> speed_multiplier (state s) = 1" using v by simp
  moreover have "distance (state s) = 5000 \<longrightarrow> speed_multiplier (state s) = 1.5" using v by simp
  moreover have "20000 \<le> distance (state s) \<longrightarrow> speed_multiplier (state s) = 3" using v by auto
  ultimately show ?thesis using s(1) clamp later by blast
qed

theorem speed_multiplier_scaling_witness:
  "list_all valid_call [Tick 50 no_spawn]
   \<and> list_all (\<lambda>c. valid_call c \<and> \<not> is_reset c) [Tick 150 no_spawn]
   \<and> (\<exists>s s'. run [Tick 50 no_spawn] (new_engine 0 NoFile) = Inr s
         \<and> distance (state s) = 5000 \<and> speed_multiplier (state s) = 1.5
         \<and> run [Tick 150 no_spawn] s = Inr s' \<and> 1.5 \<le> speed_multiplier (state s'))"
proof -
  have h: "list_all valid_call [Tick 50 no_spawn]" by simp
  have h': "list_all (\<lambda>c. valid_call c \<and> \<not> is_reset c) [Tick 150 no_spawn]" by simp
  from speed_multiplier_scaling [OF h, of 0 NoFile]
  obtain s where s: "run [Tick 50 no_spawn] (new_engine 0 NoFile) = Inr s"
    "distance (state s) = 5000 \<longrightarrow> speed_multiplier (state s) = 1.5"
    "\<forall>cs'. list_all (\<lambda>c. valid_call c \<and> \<not> is_reset c) cs' \<longrightarrow>
           (\<exists>s'. run cs' s = Inr s'
              \<and> speed_multiplier (state s) \<le> speed_multiplier (state s'))"
    by blast
  have "distance (state (update_game 50 no_spawn (new_engine 0 NoFile))) = 5000"
    by (simp add: eval_defs)
  with s(1) have d: "distance (state s) = 5000" by auto
  with s(2) have v: "speed_multiplier (state s) = 1.5" by simp
  from s(3) h' obtain s' where "run [Tick 150 no_spawn] s = Inr s'"
      "speed_multiplier (state s) \<le> speed_multiplier (state s')" by blast
  with s(1) d v h h' show ?thesis by auto
qed

text \<open>
  Claim C1, at an engine constructed over a score file that holds 500: the constructor
  loads 500 into \<open>high_score\<close>, and \<open>reset_game\<close> then leaves \<open>high_score\<close> at 0,
  the default of a new \<open>GameState\<close>, since it does not load the file again as the
  constructor does.
\<close>

theorem reset_game_drops_high_score:
  "high_score (state (new_engine 0 (FileData (Some 500)))) = 500
   \<and> apply_call (Reset 1) (new_engine 0 (FileData (Some 500))) = Inr (reset_game 1)
   \<and> high_score (state (reset_game 1)) = 0"
  by (simp add: new_engine_def load_high_score_def reset_game_def GameState_default_def)

text \<open>
  Claim C2 as stated fails. Four trees spawned in the centre lane by four ticks of
  \<open>delta_time = 0\<close> reach the player together in a tick of 1.5 seconds; each is a hit
  and lives go from 3 to \<open>-1\<close>.
\<close>

theorem lives_below_zero:
  "run [Tick 0 tree_centre, Tick 0 tree_centre, Tick 0 tree_centre, Tick 0 tree_centre,
        Tick 1.5 no_spawn] (new_engine 0 NoFile)
     = Inr (update_game 1.5 no_spawn (update_game 0 tree_centre (update_game 0 tree_centre
        (update_game 0 tree_centre (update_game 0 tree_centre (new_engine 0 NoFile))))))
   \<and> lives (state (update_game 1.5 no_spawn (update_game 0 tree_centre (update_game 0 tree_centre
        (update_game 0 tree_centre (update_game 0 tree_centre (new_engine 0 NoFile))))))) = - 1"
proof -
  have "lives (state (update_game 1.5 no_spawn (update_game 0 tree_centre (update_game 0 tree_centre
        (update_game 0 tree_centre (update_game 0 tree_centre (new_engine 0 NoFile))))))) = - 1"
    by (simp add: eval_defs)
  then show ?thesis by simp
qed

text \<open>
  Claim C2, amended. After any calls (ticks with \<open>delta_time \<ge> 0\<close>, moves, pauses,
  resets) on a new engine, no call raises, lives are at most 3 and \<open>game_over\<close> holds
  exactly when lives are 0 or less. A hit lowers lives by exactly 1 and sets
  \<open>game_over\<close> when that leaves 0 or less, so the hit that takes lives from 1 to 0 ends
  the game; lives have no floor at 0.
\<close>

theorem lives_and_game_over:
  assumes "list_all valid_call cs"
  shows "(\<exists>s. run cs (new_engine now f) = Inr s
            \<and> lives (state s) \<le> 3 \<and> (game_over (state s) \<longleftrightarrow> lives (state s) \<le> 0))
       \<and> lives (state (handle_collision t)) = lives (state t) - 1
       \<and> (game_over (state (handle_collision t))
            \<longleftrightarrow> game_over (state t) \<or> lives (state t) - 1 \<le> 0)"
proof -
  from run_inv [OF assms new_engine_inv]
  obtain s where "run cs (new_engine now f) = Inr s" "engine_inv s" by blast
  then have "\<exists>s. run cs (new_engine now f) = Inr s
            \<and> lives (state s) \<le> 3 \<and> (game_over (state s) \<longleftrightarrow> lives (state s) \<le> 0)"
    by (auto simp: engine_inv_def)
  then show ?thesis by (simp add: handle_collision_game_over)
qed

theorem lives_and_game_over_witness:
  "list_all valid_call [Tick 0 tree_centre, Tick 1.5 no_spawn]
   \<and> (\<exists>s. run [Tick 0 tree_centre, Tick 1.5 no_spawn] (new_engine 0 NoFile) = Inr s
         \<and> lives (state s) = 2 \<and> \<not> game_over (state s))"
proof -
  have h: "list_all valid_call [Tick 0 tree_centre, Tick 1.5 no_spawn]" by simp
  from lives_and_game_over [OF h, of 0 NoFile]
  obtain s where s: "run [Tick 0 tree_centre, Tick 1.5 no_spawn] (new_engine 0 NoFile) = Inr s"
    "game_over (state s) \<longleftrightarrow> lives (state s) \<le> 0" by blast
  have "lives (state (update_game 1.5 no_spawn (update_game 0 tree_centre (new_engine 0 NoFile)))) = 2"
    by (simp add: eval_defs)
  with s(1) have "lives (state s) = 2" by auto
  with s h show ?thesis by auto
qed

text \<open>
  Claim C4. Collision resolution deactivates exactly the active obstacles whose
  rectangle overlaps the player's, hit or avoided, and takes one life for each of them
  that is a pit while the player is not jumping, or a tree or rock while the player is not
  sliding. Over a tick lives never rise, and the lives lost together with the obstacles
  still active afterwards are no more than the obstacles active before plus the one that
  may spawn: an obstacle takes at most one life, ever.
\<close>

theorem obstacle_collision_resolution:
  "obstacles (check_collisions s) =
     map (\<lambda>ob. if active ob \<and> rects_collide (get_player_rect s) (object_rect ob)
               then ob\<lparr>active := False\<rparr> else ob) (obstacles s)
   \<and> lives (state (check_collisions s)) =
       lives (state s) - int (length (filter
         (\<lambda>ob. active ob \<and> rects_collide (get_player_rect s) (object_rect ob) \<and>
               (obstacle_type ob = ''pit'' \<and> \<not> jumping (player s) \<or>
                (obstacle_type ob = ''tree'' \<or> obstacle_type ob = ''rock'')
                  \<and> \<not> sliding (player s)))
         (obstacles s)))
   \<and> lives (state (update_game dt d s)) \<le> lives (state s)
   \<and> (lives (state s) - lives (state (update_game dt d s)))
       + int (length (filter active (obstacles (update_game dt d s))))
     \<le> int (length (filter active (obstacles s)))
       + (if OBSTACLE_SPAWN_RATE * 3 \<le> obstacle_roll d then 0 else 1)"
  using check_collisions_obstacles [of s] check_collisions_lives [of s]
    update_game_lives_bound [of dt d s]
  by simp

theorem obstacle_collision_resolution_witness:
  "lives (state (update_game 0 tree_centre (new_engine 0 NoFile))) = 3
   \<and> map active (obstacles (update_game 0 tree_centre (new_engine 0 NoFile))) = [True]
   \<and> OBSTACLE_SPAWN_RATE * 3 \<le> obstacle_roll no_spawn
   \<and> lives (state (update_game 1.5 no_spawn (update_game 0 tree_centre (new_engine 0 NoFile)))) = 2
   \<and> filter active (obstacles
        (update_game 1.5 no_spawn (update_game 0 tree_centre (new_engine 0 NoFile)))) = []"
proof -
  let ?e1 = "update_game 0 tree_centre (new_engine 0 NoFile)"
  have e1: "lives (state ?e1) = 3" "map active (obstacles ?e1) = [True]"
    by (simp_all add: eval_defs)
  have roll: "OBSTACLE_SPAWN_RATE * 3 \<le> obstacle_roll no_spawn"
    by (simp add: OBSTACLE_SPAWN_RATE_def no_spawn_def)
  have e2: "lives (state (update_game 1.5 no_spawn ?e1)) = 2"
    by (simp add: eval_defs)
  have "length (filter active (obstacles ?e1)) = length (filter id (map active (obstacles ?e1)))"
    by (simp add: filter_map comp_def)
  then have a1: "length (filter active (obstacles ?e1)) = 1" unfolding e1(2) by simp
  from obstacle_collision_resolution [of ?e1 "1.5" no_spawn] roll e1(1) e2 a1
  have "length (filter active (obstacles (update_game 1.5 no_spawn ?e1))) = 0" by simp
  with e1 roll e2 show ?thesis by simp
qed

text \<open>
  Claim C7. Collision resolution marks exactly the uncollected coins whose rectangle
  overlaps the player's as collected, and adds 1 to \<open>coins_collected\<close> and 50 to
  \<open>score\<close> for each. Over a tick \<open>coins_collected\<close> never falls, the coins collected
  together with the coins still uncollected afterwards are no more than the coins
  uncollected before plus the one that may spawn, so a collected coin is never collected
  again; and the score gained is the time bonus plus 50 for each coin collected.
\<close>

theorem coin_collection:
  "coins (check_collisions s) =
     map (\<lambda>c. if \<not> collected c \<and> rects_collide (get_player_rect s) (object_rect c)
              then c\<lparr>collected := True\<rparr> else c) (coins s)
   \<and> coins_collected (state (check_collisions s)) =
       coins_collected (state s) + int (length (filter
         (\<lambda>c. \<not> collected c \<and> rects_collide (get_player_rect s) (object_rect c)) (coins s)))
   \<and> score (state (check_collisions s)) =
       score (state s) + 50 * int (length (filter
         (\<lambda>c. \<not> collected c \<and> rects_collide (get_player_rect s) (object_rect c)) (coins s)))
   \<and> coins_collected (state s) \<le> coins_collected (state (update_game dt d s))
   \<and> (coins_collected (state (update_game dt d s)) - coins_collected (state s))
       + int (length (filter (\<lambda>c. \<not> collected c) (coins (update_game dt d s))))
     \<le> int (length (filter (\<lambda>c. \<not> collected c) (coins s)))
       + (if COIN_SPAWN_RATE \<le> coin_roll d then 0 else 1)
   \<and> score (state (update_game dt d s)) =
       (if game_over (state s) \<or> paused (state s) then score (state s)
        else score (state s) + py_int (10 * dt * speed_multiplier (state s))
             + 50 * (coins_collected (state (update_game dt d s)) - coins_collected (state s)))"
  using check_collisions_coins [of s] check_collisions_coins_collected [of s]
    check_collisions_score [of s] update_game_coins_bound [of s dt d]
  by simp

theorem coin_collection_witness:
  "coins_collected (state (update_game 0 coin_centre (new_engine 0 NoFile))) = 0
   \<and> map collected (coins (update_game 0 coin_centre (new_engine 0 NoFile))) = [False]
   \<and> COIN_SPAWN_RATE \<le> coin_roll no_spawn
   \<and> coins_collected (state
        (update_game 1.3 no_spawn (update_game 0 coin_centre (new_engine 0 NoFile)))) = 1
   \<and> score (state
        (update_game 1.3 no_spawn (update_game 0 coin_centre (new_engine 0 NoFile)))) = 63
   \<and> filter (\<lambda>c. \<not> collected c) (coins
        (update_game 1.3 no_spawn (update_game 0 coin_centre (new_engine 0 NoFile)))) = []"
proof -
  let ?e1 = "update_game 0 coin_centre (new_engine 0 NoFile)"
  have e1: "coins_collected (state ?e1) = 0" "map collected (coins ?e1) = [False]"
    "score (state ?e1) = 0" "speed_multiplier (state ?e1) = 1"
    "\<not> game_over (state ?e1)" "\<not> paused (state ?e1)"
    by (simp_all add: eval_defs)
  have roll: "COIN_SPAWN_RATE \<le> coin_roll no_spawn"
    by (simp add: COIN_SPAWN_RATE_def no_spawn_def)
  have e2: "coins_collected (state (update_game 1.3 no_spawn ?e1)) = 1"
    by (simp add: eval_defs)
  have "length (filter (\<lambda>c. \<not> collected c) (coins ?e1))
      = length (filter Not (map collected (coins ?e1)))"
    by (simp add: filter_map comp_def)
  then have u1: "length (filter (\<lambda>c. \<not> collected c) (coins ?e1)) = 1" unfolding e1(2) by simp
  note cc = coin_collection [of ?e1 "1.3" no_spawn]
  from cc roll e1(1) e2 u1
  have none: "length (filter (\<lambda>c. \<not> collected c) (coins (update_game 1.3 no_spawn ?e1))) = 0"
    by simp
  from cc e1 e2 have "score (state (update_game 1.3 no_spawn ?e1)) = py_int (10 * 1.3 * 1) + 50"
    by simp
  then have "score (state (update_game 1.3 no_spawn ?e1)) = 63" by (simp add: py_int_def)
  with e1 roll e2 none show ?thesis by simp
qed

text \<open>
  Claim C3 as stated fails. A tree and a coin spawned in the centre lane reach the player
  in a tick of 1.3 seconds: lives go to 2 and the coin is collected. After the cleanup
  pass of that tick, and after that of the next tick, the deactivated tree and the
  collected coin are still in storage.
\<close>

theorem resolved_entities_stay_stored:
  "map active (obstacles (update_game 1.3 no_spawn
      (update_game 0 tree_and_coin_centre (new_engine 0 NoFile)))) = [False]
   \<and> map collected (coins (update_game 1.3 no_spawn
      (update_game 0 tree_and_coin_centre (new_engine 0 NoFile)))) = [True]
   \<and> map active (obstacles (update_game 0 no_spawn (update_game 1.3 no_spawn
      (update_game 0 tree_and_coin_centre (new_engine 0 NoFile))))) = [False]
   \<and> map collected (coins (update_game 0 no_spawn (update_game 1.3 no_spawn
      (update_game 0 tree_and_coin_centre (new_engine 0 NoFile))))) = [True]"
  by (simp add: eval_defs)

text \<open>
  Claim C3, amended. A deactivated obstacle or a collected coin is left out of the
  snapshot at once but stays in storage: the cleanup pass of a running tick removes
  exactly the entities whose \<open>y\<close> has reached 600, whatever their flags. The obstacles
  stored after the tick are those found before it and the one spawned, moved down,
  resolved against the player's rectangle, and kept when \<open>y < 600\<close>; the coins likewise.
  So every entity found before the tick, active or not, resolved in this tick or earlier,
  is stored after it (moved down, with its flag as the resolution left it) exactly when
  its new \<open>y\<close> is below 600.
\<close>

theorem cleanup_by_position:
  assumes "\<not> game_over (state s)" and "\<not> paused (state s)"
  shows "obstacles (update_game dt d s) =
           filter (\<lambda>ob. pos_y (position ob) < 600)
             (map (\<lambda>ob. if active ob
                            \<and> rects_collide (get_player_rect (update_game dt d s)) (object_rect ob)
                        then ob\<lparr>active := False\<rparr> else ob)
                (map (advance (300 * speed_multiplier (state (update_game dt d s)) * dt))
                   (obstacles s
                      @ obstacles (spawn_obstacles d ((update_game dt d s)\<lparr>obstacles := []\<rparr>)))))
   \<and> coins (update_game dt d s) =
           filter (\<lambda>c. pos_y (position c) < 600)
             (map (\<lambda>c. if \<not> collected c
                            \<and> rects_collide (get_player_rect (update_game dt d s)) (object_rect c)
                        then c\<lparr>collected := True\<rparr> else c)
                (map (advance (300 * speed_multiplier (state (update_game dt d s)) * dt))
                   (coins s @ coins (spawn_coins d ((update_game dt d s)\<lparr>coins := []\<rparr>)))))
   \<and> (\<forall>ob \<in> set (obstacles s).
        (advance (300 * speed_multiplier (state (update_game dt d s)) * dt) ob
           \<in> set (obstacles (update_game dt d s))
         \<or> (advance (300 * speed_multiplier (state (update_game dt d s)) * dt) ob)
              \<lparr>active := False\<rparr> \<in> set (obstacles (update_game dt d s)))
        = (pos_y (position ob) + 300 * speed_multiplier (state (update_game dt d s)) * dt < 600))
   \<and> (\<forall>c \<in> set (coins s).
        (advance (300 * speed_multiplier (state (update_game dt d s)) * dt) c
           \<in> set (coins (update_game dt d s))
         \<or> (advance (300 * speed_multiplier (state (update_game dt d s)) * dt) c)
              \<lparr>collected := True\<rparr> \<in> set (coins (update_game dt d s)))
        = (pos_y (position c) + 300 * speed_multiplier (state (update_game dt d s)) * dt < 600))
   \<and> (\<forall>ob \<in> set (obstacles (update_game dt d s)). pos_y (position ob) < 600)
   \<and> (\<forall>c \<in> set (coins (update_game dt d s)). pos_y (position c) < 600)
   \<and> (\<forall>ob \<in> set (obstacles s). \<not> active ob \<longrightarrow>
        (advance (300 * speed_multiplier (state (update_game dt d s)) * dt) ob
           \<in> set (obstacles (update_game dt d s)))
        = (pos_y (position ob) + 300 * speed_multiplier (state (update_game dt d s)) * dt < 600))
   \<and> (\<forall>c \<in> set (coins s). collected c \<longrightarrow>
        (advance (300 * speed_multiplier (state (update_game dt d s)) * dt) c
           \<in> set (coins (update_game dt d s)))
        = (pos_y (position c) + 300 * speed_multiplier (state (update_game dt d s)) * dt < 600))
   \<and> (\<forall>ob \<in> set (fst (snd (get_game_objects s))). active ob)
   \<and> (\<forall>c \<in> set (fst (snd (snd (get_game_objects s)))). \<not> collected c)"
proof -
  let ?dy = "300 * speed_multiplier (state (update_game dt d s)) * dt"
  let ?f = "\<lambda>ob. if active ob
                    \<and> rects_collide (get_player_rect (update_game dt d s)) (object_rect ob)
                 then ob\<lparr>active := False\<rparr> else ob"
  let ?g = "\<lambda>c. if \<not> collected c
                    \<and> rects_collide (get_player_rect (update_game dt d s)) (object_rect c)
                 then c\<lparr>collected := True\<rparr> else c"
  note obs = update_game_obstacles_exact [OF assms, of dt d]
  note cs = update_game_coins_exact [OF assms, of dt d]
  define xs where "xs = map ?f (map (advance ?dy)
      (obstacles s @ obstacles (spawn_obstacles d ((update_game dt d s)\<lparr>obstacles := []\<rparr>))))"
  define ys where "ys = map ?g (map (advance ?dy)
      (coins s @ coins (spawn_coins d ((update_game dt d s)\<lparr>coins := []\<rparr>))))"
  have obs': "obstacles (update_game dt d s) = filter (\<lambda>ob. pos_y (position ob) < 600) xs"
    unfolding xs_def by (rule obs)
  have cs': "coins (update_game dt d s) = filter (\<lambda>c. pos_y (position c) < 600) ys"
    unfolding ys_def by (rule cs)
  have in_xs: "?f (advance ?dy ob) \<in> set xs" if "ob \<in> set (obstacles s)" for ob
    unfolding xs_def set_map using that by (intro imageI) simp
  have in_ys: "?g (advance ?dy c) \<in> set ys" if "c \<in> set (coins s)" for c
    unfolding ys_def set_map using that by (intro imageI) simp
  have o1: "\<forall>ob \<in> set (obstacles (update_game dt d s)). pos_y (position ob) < 600"
    by (simp add: obs')
  have c1: "\<forall>c \<in> set (coins (update_game dt d s)). pos_y (position c) < 600"
    by (simp add: cs')
  have o3: "\<forall>ob \<in> set (obstacles s).
        (advance ?dy ob \<in> set (obstacles (update_game dt d s))
         \<or> (advance ?dy ob)\<lparr>active := False\<rparr> \<in> set (obstacles (update_game dt d s)))
        = (pos_y (position ob) + ?dy < 600)"
  proof (intro ballI iffI)
    fix ob assume ob: "ob \<in> set (obstacles s)"
    assume "advance ?dy ob \<in> set (obstacles (update_game dt d s))
         \<or> (advance ?dy ob)\<lparr>active := False\<rparr> \<in> set (obstacles (update_game dt d s))"
    then have "pos_y (position (advance ?dy ob)) < 600
        \<or> pos_y (position ((advance ?dy ob)\<lparr>active := False\<rparr>)) < 600"
      using o1 by blast
    then show "pos_y (position ob) + ?dy < 600" by simp
  next
    fix ob assume ob: "ob \<in> set (obstacles s)"
    assume y: "pos_y (position ob) + ?dy < 600"
    have "pos_y (position (?f (advance ?dy ob))) < 600" using y by simp
    with in_xs [OF ob] have "?f (advance ?dy ob) \<in> set (obstacles (update_game dt d s))"
      unfolding obs' by simp
    moreover have "?f (advance ?dy ob) = advance ?dy ob
        \<or> ?f (advance ?dy ob) = (advance ?dy ob)\<lparr>active := False\<rparr>"
      by simp
    ultimately show "advance ?dy ob \<in> set (obstacles (update_game dt d s))
         \<or> (advance ?dy ob)\<lparr>active := False\<rparr> \<in> set (obstacles (update_game dt d s))"
      by metis
  qed
  have c3: "\<forall>c \<in> set (coins s).
        (advance ?dy c \<in> set (coins (update_game dt d s))
         \<or> (advance ?dy c)\<lparr>collected := True\<rparr> \<in> set (coins (update_game dt d s)))
        = (pos_y (position c) + ?dy < 600)"
  proof (intro ballI iffI)
    fix c assume c: "c \<in> set (coins s)"
    assume "advance ?dy c \<in> set (coins (update_game dt d s))
         \<or> (advance ?dy c)\<lparr>collected := True\<rparr> \<in> set (coins (update_game dt d s))"
    then have "pos_y (position (advance ?dy c)) < 600
        \<or> pos_y (position ((advance ?dy c)\<lparr>collected := True\<rparr>)) < 600"
      using c1 by blast
    then show "pos_y (position c) + ?dy < 600" by simp
  next
    fix c assume c: "c \<in> set (coins s)"
    assume y: "pos_y (position c) + ?dy < 600"
    have "pos_y (position (?g (advance ?dy c))) < 600" using y by simp
    with in_ys [OF c] have "?g (advance ?dy c) \<in> set (coins (update_game dt d s))"
      unfolding cs' by simp
    moreover have "?g (advance ?dy c) = advance ?dy c
        \<or> ?g (advance ?dy c) = (advance ?dy c)\<lparr>collected := True\<rparr>"
      by simp
    ultimately show "advance ?dy c \<in> set (coins (update_game dt d s))
         \<or> (advance ?dy c)\<lparr>collected := True\<rparr> \<in> set (coins (update_game dt d s))"
      by metis
  qed
  have o2: "\<forall>ob \<in> set (obstacles s). \<not> active ob \<longrightarrow>
        (advance ?dy ob \<in> set (obstacles (update_game dt d s)))
        = (pos_y (position ob) + ?dy < 600)"
  proof (intro ballI impI)
    fix ob assume ob: "ob \<in> set (obstacles s)" "\<not> active ob"
    have "?f (advance ?dy ob) = advance ?dy ob" using ob(2) by simp
    with in_xs [OF ob(1)] have "advance ?dy ob \<in> set xs" by simp
    then show "(advance ?dy ob \<in> set (obstacles (update_game dt d s)))
        = (pos_y (position ob) + ?dy < 600)"
      by (simp add: obs')
  qed
  have c2: "\<forall>c \<in> set (coins s). collected c \<longrightarrow>
        (advance ?dy c \<in> set (coins (update_game dt d s)))
        = (pos_y (position c) + ?dy < 600)"
  proof (intro ballI impI)
    fix c assume c: "c \<in> set (coins s)" "collected c"
    have "?g (advance ?dy c) = advance ?dy c" using c(2) by simp
    with in_ys [OF c(1)] have "advance ?dy c \<in> set ys" by simp
    then show "(advance ?dy c \<in> set (coins (update_game dt d s)))
        = (pos_y (position c) + ?dy < 600)"
      by (simp add: cs')
  qed
  have snap: "(\<forall>ob \<in> set (fst (snd (get_game_objects s))). active ob)
   \<and> (\<forall>c \<in> set (fst (snd (snd (get_game_objects s)))). \<not> collected c)"
    by (simp add: get_game_objects_def)
  show ?thesis
    by (rule conjI [OF obs conjI [OF cs conjI [OF o3 conjI [OF c3
          conjI [OF o1 conjI [OF c1 conjI [OF o2 conjI [OF c2 snap]]]]]]]])
qed

theorem cleanup_by_position_witness:
  "\<not> game_over (state (update_game 1.3 no_spawn
        (update_game 0 tree_and_coin_centre (new_engine 0 NoFile))))
   \<and> \<not> paused (state (update_game 1.3 no_spawn
        (update_game 0 tree_and_coin_centre (new_engine 0 NoFile))))
   \<and> map active (obstacles (update_game 1.3 no_spawn
        (update_game 0 tree_and_coin_centre (new_engine 0 NoFile)))) = [False]
   \<and> advance 0 (hd (obstacles (update_game 1.3 no_spawn
        (update_game 0 tree_and_coin_centre (new_engine 0 NoFile)))))
       \<in> set (obstacles (update_game 0 no_spawn (update_game 1.3 no_spawn
          (update_game 0 tree_and_coin_centre (new_engine 0 NoFile)))))
   \<and> fst (snd (get_game_objects (update_game 1.3 no_spawn
        (update_game 0 tree_and_coin_centre (new_engine 0 NoFile))))) = []"
proof -
  let ?e = "update_game 1.3 no_spawn (update_game 0 tree_and_coin_centre (new_engine 0 NoFile))"
  have run: "\<not> game_over (state ?e)" "\<not> paused (state ?e)"
    by (simp_all add: eval_defs)
  have act: "map active (obstacles ?e) = [False]"
    by (simp add: eval_defs)
  have first: "hd (obstacles ?e) \<in> set (obstacles ?e)" "\<not> active (hd (obstacles ?e))"
    "pos_y (position (hd (obstacles ?e))) < 600"
    by (simp_all add: eval_defs)
  have off: "\<forall>ob \<in> set (obstacles ?e). \<not> active ob"
    by (simp add: eval_defs)
  note kept = cleanup_by_position [OF run, of 0 no_spawn,
      THEN conjunct2, THEN conjunct2, THEN conjunct2, THEN conjunct2,
      THEN conjunct2, THEN conjunct2, THEN conjunct1]
  from kept first
  have stay: "advance 0 (hd (obstacles ?e)) \<in> set (obstacles (update_game 0 no_spawn ?e))"
    by simp
  have "filter active (obstacles ?e) = []"
    using off by (simp add: filter_empty_conv)
  then have "fst (snd (get_game_objects ?e)) = []" by (simp add: get_game_objects_def)
  with run act stay show ?thesis by blast
qed

end
